theory Spec2Isabelle
  imports Main
begin

section \<open>JavaScript primitives used by the generator\<close>

text \<open>
  \<^verbatim>\<open>s.includes(sub)\<close> on strings: \<open>sub\<close> occurs in \<open>s\<close> as a contiguous
  substring. The generator classifies every block by such tests on its \<open>id\<close>.
\<close>

fun includes_str :: "string \<Rightarrow> string \<Rightarrow> bool" where
  "includes_str [] sub = (sub = [])"
| "includes_str (c # cs) sub = (take (length sub) (c # cs) = sub \<or> includes_str cs sub)"

text \<open>\<^verbatim>\<open>xs.join(sep)\<close> on an array of strings.\<close>

fun join :: "string \<Rightarrow> string list \<Rightarrow> string" where
  "join sep [] = []"
| "join sep [x] = x"
| "join sep (x # y # ys) = x @ sep @ join sep (y # ys)"

text \<open>
  A loop index or a bit width interpolated into a template literal, modelled as the
  decimal numeral of a natural number. JavaScript numbers are doubles: integers above
  \<open>2^53\<close> are not all representable and from \<open>10^21\<close> on a number prints in
  exponent form. Counts and widths of that size are outside this model, which prints
  every natural number in plain decimal; a non-integer or negative \<open>count\<close> or
  \<open>bitSize\<close> is outside it as well.
\<close>

definition digit_char :: "nat \<Rightarrow> char" where
  "digit_char n = ''0123456789'' ! n"

function toString :: "nat \<Rightarrow> string" where
  "toString n = (if n < 10 then [digit_char n] else toString (n div 10) @ [digit_char (n mod 10)])"
  by pat_completeness auto
termination
  by (relation "measure (\<lambda>n. n)") auto

declare toString.simps [simp del]

text \<open>
  A JavaScript \<^verbatim>\<open>Set\<close> of strings keeps insertion order and ignores an element it
  already holds; \<^verbatim>\<open>Array.from\<close> lists it in that order.
\<close>

definition set_add :: "string list \<Rightarrow> string \<Rightarrow> string list" where
  "set_add s x = (if x \<in> set s then s else s @ [x])"

definition new_Set :: "string list \<Rightarrow> string list" where
  "new_Set xs = foldl set_add [] xs"

text \<open>
  \<^verbatim>\<open>v || d\<close> on an optional number: an absent field and \<open>0\<close> are both falsy.
\<close>

definition or_default :: "nat option \<Rightarrow> nat \<Rightarrow> nat" where
  "or_default v d = (case v of None \<Rightarrow> d | Some n \<Rightarrow> if n = 0 then d else n)"

section \<open>Data model\<close>

text \<open>
  A block descriptor of the parsed JSON document. \<open>id\<close> is a string; \<open>type\<close>,
  \<open>enabled\<close>, \<open>count\<close> and \<open>bitSize\<close> are optional (\<open>None\<close>: the field is absent).
\<close>

record block =
  block_id :: string
  block_type :: "string option"
  enabled :: "bool option"
  count :: "nat option"
  bitSize :: "nat option"

text \<open>
  The configuration document. The source destructures its field \<open>digitalBlocks\<close>
  under the name \<open>directDigitalBlocks\<close>; \<open>None\<close> is an absent list. (The field
  \<open>config\<close> is destructured too and never read.)
\<close>

record designData =
  enabledBlocks :: "block list option"
  directDigitalBlocks :: "block list option"

section \<open>Block selection and classification\<close>

text \<open>
  \<^verbatim>\<open>enabledBlocks || directDigitalBlocks || []\<close>: an array is truthy even when it
  is empty, so a present \<open>enabledBlocks\<close> always wins.
\<close>

definition allBlocks :: "designData \<Rightarrow> block list" where
  "allBlocks d =
     (case enabledBlocks d of
        Some bs \<Rightarrow> bs
      | None \<Rightarrow> (case directDigitalBlocks d of Some bs \<Rightarrow> bs | None \<Rightarrow> []))"

definition digitalBlocks :: "designData \<Rightarrow> block list" where
  "digitalBlocks d =
     (case enabledBlocks d of
        Some _ \<Rightarrow> filter (\<lambda>b. block_type b = Some ''digital'') (allBlocks d)
      | None \<Rightarrow> filter (\<lambda>b. enabled b = Some True) (allBlocks d))"

definition processors :: "designData \<Rightarrow> block list" where
  "processors d =
     filter (\<lambda>b. includes_str (block_id b) ''cv32e40p'' \<or> includes_str (block_id b) ''minerva'')
       (digitalBlocks d)"

text \<open>\<^verbatim>\<open>processors[0]\<close>: \<open>undefined\<close> on an empty array.\<close>

definition cpu :: "designData \<Rightarrow> block option" where
  "cpu d = (case processors d of [] \<Rightarrow> None | p # _ \<Rightarrow> Some p)"

text \<open>
  \<^verbatim>\<open>cpu?.id.includes(kw)\<close>: the optional chain stops at an undefined \<open>cpu\<close> and the
  condition is falsy.
\<close>

definition cpu_includes :: "block option \<Rightarrow> string \<Rightarrow> bool" where
  "cpu_includes c kw = (case c of None \<Rightarrow> False | Some b \<Rightarrow> includes_str (block_id b) kw)"

definition memory :: "designData \<Rightarrow> block list" where
  "memory d =
     filter (\<lambda>b. includes_str (block_id b) ''sram'' \<or> includes_str (block_id b) ''qspi''
                 \<or> includes_str (block_id b) ''hyperram'')
       (digitalBlocks d)"

definition io :: "designData \<Rightarrow> block list" where
  "io d =
     filter (\<lambda>b. includes_str (block_id b) ''gpio'' \<or> includes_str (block_id b) ''uart''
                 \<or> includes_str (block_id b) ''spi'' \<or> includes_str (block_id b) ''i2c'')
       (digitalBlocks d)"

definition other :: "designData \<Rightarrow> block list" where
  "other d =
     filter (\<lambda>b. \<not> List.member (processors d) b \<and> \<not> List.member (memory d) b
                 \<and> \<not> List.member (io d) b)
       (digitalBlocks d)"

text \<open>\<^verbatim>\<open>bs.some(b => b.id.includes(kw))\<close>\<close>

definition some_includes :: "block list \<Rightarrow> string \<Rightarrow> bool" where
  "some_includes bs kw = list_ex (\<lambda>b. includes_str (block_id b) kw) bs"

section \<open>Import set\<close>

definition ioImports :: "designData \<Rightarrow> string list" where
  "ioImports d =
     (if some_includes (io d) ''gpio'' then [''GPIOPeripheral''] else []) @
     (if some_includes (io d) ''uart'' then [''UARTPeripheral''] else []) @
     (if some_includes (io d) ''spi'' then [''SPIPeripheral''] else []) @
     (if some_includes (io d) ''i2c'' then [''I2CPeripheral''] else [])"

definition platformImports :: "designData \<Rightarrow> string list" where
  "platformImports d =
     [''attach_data'', ''SoftwareBuild''] @
     (if some_includes (io d) ''gpio'' then [''GPIOSignature''] else []) @
     (if some_includes (io d) ''uart'' then [''UARTSignature''] else []) @
     (if some_includes (io d) ''spi'' then [''SPISignature''] else []) @
     (if some_includes (io d) ''i2c'' then [''I2CSignature''] else []) @
     (if some_includes (memory d) ''qspi'' then [''QSPIFlashSignature''] else []) @
     (if cpu_includes (cpu d) ''cv32e40p'' then [''JTAGSignature''] else [])"

definition seed_imports :: "string list" where
  "seed_imports =
     [''from pathlib import Path'',
      '''',
      ''from amaranth import Module'',
      ''from amaranth.lib import wiring'',
      ''from amaranth.lib.wiring import Out, flipped, connect'',
      '''',
      ''from amaranth_soc import csr, wishbone'',
      ''from amaranth_soc.csr.wishbone import WishboneCSRBridge'',
      '''',
      ''from chipflow_digital_ip.base import SoCID'']"

definition memory_imports :: "designData \<Rightarrow> string list \<Rightarrow> string list" where
  "memory_imports d s =
     (let s1 = (if some_includes (memory d) ''qspi''
                then set_add s ''from chipflow_digital_ip.memory import QSPIFlash'' else s);
          s2 = (if some_includes (memory d) ''hyperram''
                then set_add s1 ''from chipflow_digital_ip.memory import HyperRAM'' else s1)
      in if some_includes (memory d) ''sram'' \<or> memory d = []
         then set_add s2 ''from amaranth_soc.wishbone.sram import WishboneSRAM'' else s2)"

definition io_imports :: "designData \<Rightarrow> string list \<Rightarrow> string list" where
  "io_imports d s =
     (if ioImports d \<noteq> []
      then set_add s (''from chipflow_digital_ip.io import '' @ join '', '' (ioImports d))
      else s)"

definition processor_imports :: "designData \<Rightarrow> string list \<Rightarrow> string list" where
  "processor_imports d s =
     (if cpu_includes (cpu d) ''cv32e40p''
      then set_add s ''from chipflow_digital_ip.processors import CV32E40P, OBIDebugModule''
      else if cpu_includes (cpu d) ''minerva''
      then set_add s ''from minerva.core import Minerva''
      else s)"

definition platform_imports :: "designData \<Rightarrow> string list \<Rightarrow> string list" where
  "platform_imports d s =
     set_add s (''from chipflow_lib.platforms import '' @ join '', '' (platformImports d))"

text \<open>The set \<open>imports\<close> of the source, after all its \<^verbatim>\<open>add\<close> calls, in insertion order.\<close>

definition imports_set :: "designData \<Rightarrow> string list" where
  "imports_set d =
     platform_imports d (processor_imports d (io_imports d (memory_imports d (new_Set seed_imports))))"

section \<open>Interface declarations\<close>

definition iface_gpio :: \<open>nat \<Rightarrow> nat \<Rightarrow> string\<close> where
  \<open>iface_gpio i bits =
     ''"gpio_'' @ toString i @ ''": Out(GPIOSignature(pin_count='' @ toString bits @ ''))''\<close>

definition iface_uart :: \<open>nat \<Rightarrow> string\<close> where
  \<open>iface_uart i =
     ''"uart_'' @ toString i @ ''": Out(UARTSignature())''\<close>

definition iface_spi :: \<open>nat \<Rightarrow> string\<close> where
  \<open>iface_spi k =
     ''"spi_'' @ toString k @ ''": Out(SPISignature())''\<close>

definition iface_i2c :: \<open>nat \<Rightarrow> string\<close> where
  \<open>iface_i2c i =
     ''"i2c_'' @ toString i @ ''": Out(I2CSignature())''\<close>

text \<open>
  The body of \<^verbatim>\<open>io.forEach\<close>: one \<^verbatim>\<open>else if\<close> chain on the id, each branch pushing
  \<open>count\<close> declarations. Only the SPI branch starts from the number of declarations
  already in the list whose text contains \<open>spi_\<close>; the others restart at \<open>0\<close>.
\<close>

definition add_io_interfaces :: "string list \<Rightarrow> block \<Rightarrow> string list" where
  "add_io_interfaces interfaces b =
     (let n = or_default (count b) 1 in
      if includes_str (block_id b) ''gpio'' then
        interfaces @ map (\<lambda>i. iface_gpio i (or_default (bitSize b) 8)) [0..<n]
      else if includes_str (block_id b) ''uart'' then
        interfaces @ map (\<lambda>i. iface_uart i) [0..<n]
      else if includes_str (block_id b) ''spi'' then
        (let startIndex = length (filter (\<lambda>iface. includes_str iface ''spi_'') interfaces)
         in interfaces @ map (\<lambda>i. iface_spi (startIndex + i)) [0..<n])
      else if includes_str (block_id b) ''i2c'' then
        interfaces @ map (\<lambda>i. iface_i2c i) [0..<n]
      else interfaces)"

definition fixed_interfaces :: "designData \<Rightarrow> string list" where
  \<open>fixed_interfaces d =
     (if some_includes (memory d) ''qspi'' then [''"flash": Out(QSPIFlashSignature())''] else []) @
     (if cpu_includes (cpu d) ''cv32e40p'' then [''"cpu_jtag": Out(JTAGSignature())''] else [])\<close>

definition interfaces :: "designData \<Rightarrow> string list" where
  "interfaces d = foldl add_io_interfaces (fixed_interfaces d) (io d)"

section \<open>Memory map\<close>

definition memoryMap_head :: string where
  \<open>memoryMap_head =
     ''        # Memory regions:\<newline>'' @
     ''        self.mem_spiflash_base = 0x00000000\<newline>'' @
     ''        self.mem_sram_base     = 0x10000000\<newline>'' @
     ''\<newline>'' @
     ''        # Debug region\<newline>'' @
     ''        self.debug_base        = 0xa0000000\<newline>'' @
     ''\<newline>'' @
     ''        # CSR regions:\<newline>'' @
     ''        self.csr_base          = 0xb0000000''\<close>

definition memoryMap_spiflash :: string where
  \<open>memoryMap_spiflash =
     ''\<newline>'' @
     ''        self.csr_spiflash_base = 0xb0000000''\<close>

definition memoryMap_periph :: string where
  \<open>memoryMap_periph =
     ''\<newline>'' @
     ''        self.csr_gpio_base     = 0xb1000000\<newline>'' @
     ''        self.csr_uart_base     = 0xb2000000\<newline>'' @
     ''        self.csr_soc_id_base   = 0xb4000000''\<close>

definition memoryMap_spi :: string where
  \<open>memoryMap_spi =
     ''\<newline>'' @
     ''        self.csr_spi_base      = 0xb5000000''\<close>

definition memoryMap_i2c :: string where
  \<open>memoryMap_i2c =
     ''\<newline>'' @
     ''        self.csr_i2c_base      = 0xb6000000''\<close>

definition memoryMap_tail :: string where
  \<open>memoryMap_tail =
     ''\<newline>'' @
     ''        \<newline>'' @
     ''        self.periph_offset     = 0x00100000\<newline>'' @
     ''        self.sram_size  = 0x800 # 2KiB\<newline>'' @
     ''        self.bios_start = 0x100000 # 1MiB into spiflash to make room for a bitstream''\<close>

definition memoryMap :: "designData \<Rightarrow> string" where
  "memoryMap d =
     memoryMap_head @
     (if some_includes (memory d) ''qspi'' then memoryMap_spiflash else []) @
     memoryMap_periph @
     (if some_includes (io d) ''spi'' then memoryMap_spi else []) @
     (if some_includes (io d) ''i2c'' then memoryMap_i2c else []) @
     memoryMap_tail"

section \<open>CPU, memory and IO instantiation\<close>

definition cpuCode_cv32e40p :: string where
  \<open>cpuCode_cv32e40p =
     ''        # CPU\<newline>'' @
     ''        cpu = CV32E40P(config="default", reset_vector=self.bios_start, dm_haltaddress=self.debug_base+0x800)\<newline>'' @
     ''        wb_arbiter.add(cpu.ibus)\<newline>'' @
     ''        wb_arbiter.add(cpu.dbus)\<newline>'' @
     ''        m.submodules.cpu = cpu\<newline>'' @
     ''\<newline>'' @
     ''        # Debug\<newline>'' @
     ''        debug = OBIDebugModule()\<newline>'' @
     ''        wb_arbiter.add(debug.initiator)\<newline>'' @
     ''        wb_decoder.add(debug.target, name="debug", addr=self.debug_base)\<newline>'' @
     ''        m.d.comb += cpu.debug_req.eq(debug.debug_req)\<newline>'' @
     ''\<newline>'' @
     ''        m.d.comb += [\<newline>'' @
     ''            debug.jtag_tck.eq(self.cpu_jtag.tck.i),\<newline>'' @
     ''            debug.jtag_tms.eq(self.cpu_jtag.tms.i),\<newline>'' @
     ''            debug.jtag_tdi.eq(self.cpu_jtag.tdi.i),\<newline>'' @
     ''            debug.jtag_trst.eq(self.cpu_jtag.trst.i),\<newline>'' @
     ''            self.cpu_jtag.tdo.o.eq(debug.jtag_tdo),\<newline>'' @
     ''        ]\<newline>'' @
     ''        m.submodules.debug = debug''\<close>

definition cpuCode_minerva :: string where
  \<open>cpuCode_minerva =
     ''        # CPU\<newline>'' @
     ''        cpu = Minerva(reset_address=self.bios_start, with_muldiv=True)\<newline>'' @
     ''        wb_arbiter.add(cpu.ibus)\<newline>'' @
     ''        wb_arbiter.add(cpu.dbus)\<newline>'' @
     ''        m.submodules.cpu = cpu''\<close>

definition cpuCode :: "designData \<Rightarrow> string" where
  "cpuCode d =
     (if cpu_includes (cpu d) ''cv32e40p'' then cpuCode_cv32e40p
      else if cpu_includes (cpu d) ''minerva'' then cpuCode_minerva
      else [])"

definition memoryCode_qspi :: string where
  \<open>memoryCode_qspi =
     ''\<newline>'' @
     ''        # QSPI Flash\<newline>'' @
     ''        spiflash = QSPIFlash(addr_width=24, data_width=32)\<newline>'' @
     ''        wb_decoder.add(spiflash.wb_bus, name="spiflash", addr=self.mem_spiflash_base)\<newline>'' @
     ''        csr_decoder.add(spiflash.csr_bus, name="spiflash", addr=self.csr_spiflash_base - self.csr_base)\<newline>'' @
     ''        m.submodules.spiflash = spiflash\<newline>'' @
     ''        connect(m, flipped(self.flash), spiflash.pins)''\<close>

definition memoryCode_sram :: string where
  \<open>memoryCode_sram =
     ''\<newline>'' @
     ''        # SRAM\<newline>'' @
     ''        from amaranth_soc.wishbone.sram import WishboneSRAM\<newline>'' @
     ''        sram = WishboneSRAM(size=self.sram_size, data_width=32, granularity=8)\<newline>'' @
     ''        wb_decoder.add(sram.wb_bus, name="sram", addr=self.mem_sram_base)\<newline>'' @
     ''        m.submodules.sram = sram''\<close>

text \<open>
  \<open>memoryCode\<close> is built by appending fragments to a string; the model keeps the
  fragments apart and concatenates them. The SRAM fragment is appended always.
\<close>

definition memoryFragments :: "designData \<Rightarrow> string list" where
  "memoryFragments d =
     (if some_includes (memory d) ''qspi'' then [memoryCode_qspi] else []) @ [memoryCode_sram]"

definition memoryCode :: "designData \<Rightarrow> string" where
  "memoryCode d = concat (memoryFragments d)"

definition ioCode_gpio :: \<open>nat \<Rightarrow> nat \<Rightarrow> string\<close> where
  \<open>ioCode_gpio index bits =
     ''\<newline>'' @
     ''        # GPIO '' @ toString index @ ''\<newline>'' @
     ''        m.submodules.gpio_'' @ toString index @ '' = gpio_'' @ toString index @ '' = GPIOPeripheral(pin_count='' @ toString bits @ '', addr_width=5)\<newline>'' @
     ''        csr_decoder.add(gpio_'' @ toString index @ ''.bus, name="gpio_'' @ toString index @ ''", addr=self.csr_gpio_base + '' @ toString index @ '' * self.periph_offset - self.csr_base)\<newline>'' @
     ''        connect(m, flipped(self.gpio_'' @ toString index @ ''), gpio_'' @ toString index @ ''.pins)''\<close>

definition ioCode_uart :: \<open>nat \<Rightarrow> string\<close> where
  \<open>ioCode_uart index =
     ''\<newline>'' @
     ''        # UART '' @ toString index @ ''\<newline>'' @
     ''        m.submodules.uart_'' @ toString index @ '' = uart_'' @ toString index @ '' = UARTPeripheral(init_divisor=int(25e6//115200), addr_width=5)\<newline>'' @
     ''        csr_decoder.add(uart_'' @ toString index @ ''.bus, name="uart_'' @ toString index @ ''", addr=self.csr_uart_base + '' @ toString index @ '' * self.periph_offset - self.csr_base)\<newline>'' @
     ''        connect(m, flipped(self.uart_'' @ toString index @ ''), uart_'' @ toString index @ ''.pins)''\<close>

definition ioCode_spi :: \<open>nat \<Rightarrow> string\<close> where
  \<open>ioCode_spi spiIndex =
     ''\<newline>'' @
     ''        # SPI '' @ toString spiIndex @ ''\<newline>'' @
     ''        m.submodules.spi_'' @ toString spiIndex @ '' = spi_'' @ toString spiIndex @ '' = SPIPeripheral()\<newline>'' @
     ''        csr_decoder.add(spi_'' @ toString spiIndex @ ''.bus, name="spi_'' @ toString spiIndex @ ''", addr=self.csr_spi_base + '' @ toString spiIndex @ '' * self.periph_offset - self.csr_base)\<newline>'' @
     ''        connect(m, flipped(self.spi_'' @ toString spiIndex @ ''), spi_'' @ toString spiIndex @ ''.spi_pins)''\<close>

definition ioCode_i2c :: \<open>nat \<Rightarrow> string\<close> where
  \<open>ioCode_i2c index =
     ''\<newline>'' @
     ''        # I2C '' @ toString index @ ''\<newline>'' @
     ''        m.submodules.i2c_'' @ toString index @ '' = i2c_'' @ toString index @ '' = I2CPeripheral()\<newline>'' @
     ''        csr_decoder.add(i2c_'' @ toString index @ ''.bus, name="i2c_'' @ toString index @ ''", addr=self.csr_i2c_base + '' @ toString index @ '' * self.periph_offset - self.csr_base)\<newline>'' @
     ''        connect(m, flipped(self.i2c_'' @ toString index @ ''), i2c_'' @ toString index @ ''.i2c_pins)''\<close>

definition gpioBlocks :: "designData \<Rightarrow> block list" where
  "gpioBlocks d = filter (\<lambda>b. includes_str (block_id b) ''gpio'') (io d)"

definition uartBlocks :: "designData \<Rightarrow> block list" where
  "uartBlocks d = filter (\<lambda>b. includes_str (block_id b) ''uart'') (io d)"

definition spiBlocks :: "designData \<Rightarrow> block list" where
  "spiBlocks d = filter (\<lambda>b. includes_str (block_id b) ''spi'') (io d)"

definition i2cBlocks :: "designData \<Rightarrow> block list" where
  "i2cBlocks d = filter (\<lambda>b. includes_str (block_id b) ''i2c'') (io d)"

text \<open>
  \<^verbatim>\<open>gpioBlocks.forEach((block, index) => ...)\<close> appends one fragment per block,
  numbered by the block's position; \<open>count\<close> is not read. UART and I2C do the same.
\<close>

definition gpioFragments :: "designData \<Rightarrow> string list" where
  "gpioFragments d =
     map (\<lambda>(index, b). ioCode_gpio index (or_default (bitSize b) 8)) (enumerate 0 (gpioBlocks d))"

definition uartFragments :: "designData \<Rightarrow> string list" where
  "uartFragments d = map (\<lambda>(index, b). ioCode_uart index) (enumerate 0 (uartBlocks d))"

text \<open>
  The SPI loop: the inner \<^verbatim>\<open>for\<close> runs \<open>count\<close> times, appending a fragment for the
  current \<open>spiIndex\<close> and incrementing it; \<open>spiIndex\<close> lives across the blocks.
\<close>

fun spi_for :: "nat \<Rightarrow> string list \<times> nat \<Rightarrow> string list \<times> nat" where
  "spi_for 0 st = st"
| "spi_for (Suc n) (code, spiIndex) = spi_for n (code @ [ioCode_spi spiIndex], Suc spiIndex)"

definition spi_block :: "string list \<times> nat \<Rightarrow> block \<Rightarrow> string list \<times> nat" where
  "spi_block st b = spi_for (or_default (count b) 1) st"

definition spiFragments :: "designData \<Rightarrow> string list" where
  "spiFragments d = fst (foldl spi_block ([], 0) (spiBlocks d))"

definition i2cFragments :: "designData \<Rightarrow> string list" where
  "i2cFragments d = map (\<lambda>(index, b). ioCode_i2c index) (enumerate 0 (i2cBlocks d))"

definition ioFragments :: "designData \<Rightarrow> string list" where
  "ioFragments d = gpioFragments d @ uartFragments d @ spiFragments d @ i2cFragments d"

definition ioCode :: "designData \<Rightarrow> string" where
  "ioCode d = concat (ioFragments d)"

section \<open>Assembly of the artifact\<close>

definition designPy_class_open :: string where
  \<open>designPy_class_open =
     ''\<newline>'' @
     ''\<newline>'' @
     ''__all__ = ["MySoC"]\<newline>'' @
     ''\<newline>'' @
     ''class MySoC(wiring.Component):\<newline>'' @
     ''    def __init__(self):\<newline>'' @
     ''        # Top level interfaces\<newline>'' @
     ''        super().__init__({\<newline>''\<close>

definition designPy_class_close :: string where
  \<open>designPy_class_close =
     ''\<newline>'' @
     ''        })\<newline>'' @
     ''\<newline>''\<close>

definition designPy_elaborate_open :: string where
  \<open>designPy_elaborate_open =
     ''\<newline>'' @
     ''\<newline>'' @
     ''    def elaborate(self, platform):\<newline>'' @
     ''        m = Module()\<newline>'' @
     ''\<newline>'' @
     ''        wb_arbiter  = wishbone.Arbiter(addr_width=30, data_width=32, granularity=8)\<newline>'' @
     ''        wb_decoder  = wishbone.Decoder(addr_width=30, data_width=32, granularity=8)\<newline>'' @
     ''        csr_decoder = csr.Decoder(addr_width=28, data_width=8)\<newline>'' @
     ''\<newline>'' @
     ''        m.submodules.wb_arbiter  = wb_arbiter\<newline>'' @
     ''        m.submodules.wb_decoder  = wb_decoder\<newline>'' @
     ''        m.submodules.csr_decoder = csr_decoder\<newline>'' @
     ''\<newline>'' @
     ''        connect(m, wb_arbiter.bus, wb_decoder.bus)\<newline>'' @
     ''\<newline>''\<close>

definition designPy_soc_id :: string where
  \<open>designPy_soc_id =
     ''\<newline>'' @
     ''\<newline>'' @
     ''        # SoC ID\<newline>'' @
     ''        soc_id = SoCID(type_id=0xCA7F100F)\<newline>'' @
     ''        csr_decoder.add(soc_id.bus, name="soc_id", addr=self.csr_soc_id_base - self.csr_base)\<newline>'' @
     ''        m.submodules.soc_id = soc_id\<newline>'' @
     ''\<newline>'' @
     ''        # Wishbone-CSR bridge\<newline>'' @
     ''        wb_to_csr = WishboneCSRBridge(csr_decoder.bus, data_width=32)\<newline>'' @
     ''        wb_decoder.add(wb_to_csr.wb_bus, name="csr", addr=self.csr_base, sparse=False)\<newline>'' @
     ''        m.submodules.wb_to_csr = wb_to_csr\<newline>'' @
     ''\<newline>'' @
     ''        sw = SoftwareBuild(sources=Path('design/software').glob('*.c'),\<newline>'' @
     ''                           offset=self.bios_start)\<newline>'' @
     ''\<newline>'' @
     ''        # you need to attach data to both the internal and external interfaces''\<close>

definition designPy_attach_data :: string where
  \<open>designPy_attach_data =
     ''\<newline>'' @
     ''        attach_data(self.flash, m.submodules.spiflash, sw)''\<close>

definition designPy_main :: string where
  \<open>designPy_main =
     ''\<newline>'' @
     ''        return m\<newline>'' @
     ''\<newline>'' @
     ''\<newline>'' @
     ''if __name__ == "__main__":\<newline>'' @
     ''    from amaranth.back import verilog\<newline>'' @
     ''    soc_top = MySoC()\<newline>'' @
     ''    with open("build/soc_top.v", "w") as f:\<newline>'' @
     ''        f.write(verilog.convert(soc_top, name="soc_top"))\<newline>''\<close>

definition generateDesignPy :: "designData \<Rightarrow> string" where
  "generateDesignPy d =
     join ''\<newline>'' (imports_set d) @
     designPy_class_open @
     join '',\<newline>'' (map (\<lambda>iface. ''            '' @ iface) (interfaces d)) @
     designPy_class_close @
     memoryMap d @
     designPy_elaborate_open @
     cpuCode d @ ''\<newline>'' @
     memoryCode d @ ''\<newline>'' @
     ioCode d @
     designPy_soc_id @
     (if some_includes (memory d) ''qspi'' then designPy_attach_data else []) @
     designPy_main"

section \<open>Reading the generated text\<close>

text \<open>
  The properties below are stated on the text that \<open>generateDesignPy\<close> returns. The
  functions of this section read that text line by line; none of them is part of the
  generator.
\<close>

text \<open>
  A text cut at every character that satisfies \<open>P\<close> (the separators are dropped, empty
  pieces are kept); the lines of a text; a line without its indentation.
\<close>

fun split_at :: "(char \<Rightarrow> bool) \<Rightarrow> string \<Rightarrow> string list" where
  "split_at P [] = [[]]"
| "split_at P (c # cs) =
     (if P c then [] # split_at P cs
      else (case split_at P cs of [] \<Rightarrow> [[c]] | l # ls \<Rightarrow> (c # l) # ls))"

definition lines_of :: "string \<Rightarrow> string list" where
  "lines_of s = split_at (\<lambda>c. c = CHR 0x0A) s"

definition strip_left :: "string \<Rightarrow> string" where
  "strip_left s = dropWhile (\<lambda>c. c = CHR '' '') s"

text \<open>
  A memory-map line \<^verbatim>\<open>self.<name>_base = 0x<hex>\<close> read as the pair of the name and
  the hexadecimal digits; every other line reads as \<open>None\<close>. \<open>hex_val\<close> is the number
  the digits denote.
\<close>

definition hex_digit :: "char \<Rightarrow> nat" where
  "hex_digit c =
     (case map_of (zip ''0123456789abcdef'' [0, 1, 2, 3, 4, 5, 6, 7, 8, 9, 10, 11, 12, 13, 14, 15]) c of
        Some n \<Rightarrow> n
      | None \<Rightarrow> 0)"

definition hex_val :: "string \<Rightarrow> nat" where
  "hex_val s = foldl (\<lambda>acc c. 16 * acc + hex_digit c) 0 s"

definition base_entry_text :: "string \<Rightarrow> (string \<times> string) option" where
  "base_entry_text line =
     (let l = strip_left line in
      if take 5 l = ''self.'' then
        (let name = takeWhile (\<lambda>c. c \<noteq> CHR '' '') (drop 5 l);
             rest = strip_left (dropWhile (\<lambda>c. c \<noteq> CHR '' '') (drop 5 l))
         in if drop (length name - 5) name = ''_base'' \<and> take 4 rest = ''= 0x''
            then Some (name, takeWhile (\<lambda>c. c \<in> set ''0123456789abcdef'') (drop 4 rest))
            else None)
      else None)"

text \<open>
  What one line of the artifact says, if it is one of four kinds: an import statement
  (the line without its indentation starts with \<^verbatim>\<open>from \<close>), an interface declaration
  (it starts with a double quote: an entry \<^verbatim>\<open>"name": Out(...)\<close> of the dictionary passed
  to the component constructor, read without the comma that separates entries), the
  registration of a submodule (it starts with \<^verbatim>\<open>m.submodules.\<close>, read as the name
  registered: every instantiation fragment registers the instance it creates on exactly
  one such line), or a base address of the memory map.
\<close>

datatype reading = Import string | Interface string | Submodule string | Base string string

definition read_line :: "string \<Rightarrow> reading option" where
  \<open>read_line line =
     (let s = strip_left line in
      if take 5 s = ''from '' then Some (Import s)
      else if take 1 s = ''"'' then
        Some (Interface (if last s = CHR '','' then butlast s else s))
      else if take 13 s = ''m.submodules.'' then
        Some (Submodule (takeWhile (\<lambda>c. c \<noteq> CHR '' '') (drop 13 s)))
      else (case base_entry_text s of Some (name, digits) \<Rightarrow> Some (Base name digits) | None \<Rightarrow> None))\<close>

definition readings :: "string \<Rightarrow> reading list" where
  "readings text = List.map_filter read_line (lines_of text)"

text \<open>
  The import statements, the interface declarations, the registered submodules and the
  base addresses of a text, each in the order of the text.
\<close>

definition import_statements :: "string \<Rightarrow> string list" where
  "import_statements text =
     List.map_filter (\<lambda>r. case r of Import s \<Rightarrow> Some s | _ \<Rightarrow> None) (readings text)"

definition interface_decls :: "string \<Rightarrow> string list" where
  "interface_decls text =
     List.map_filter (\<lambda>r. case r of Interface s \<Rightarrow> Some s | _ \<Rightarrow> None) (readings text)"

definition submodules :: "string \<Rightarrow> string list" where
  "submodules text =
     List.map_filter (\<lambda>r. case r of Submodule n \<Rightarrow> Some n | _ \<Rightarrow> None) (readings text)"

definition base_entries :: "string \<Rightarrow> (string \<times> nat) list" where
  "base_entries text =
     List.map_filter (\<lambda>r. case r of Base n a \<Rightarrow> Some (n, hex_val a) | _ \<Rightarrow> None) (readings text)"

text \<open>
  The submodules that an SPI fragment registers are named \<^verbatim>\<open>spi_<index>\<close>; those of a
  CPU fragment are \<^verbatim>\<open>cpu\<close> and \<^verbatim>\<open>debug\<close>. The interface of the JTAG port of the
  CV32E40P debug module.
\<close>

definition is_spi_name :: "string \<Rightarrow> bool" where
  "is_spi_name n \<longleftrightarrow> take 4 n = ''spi_''"



text \<open>
  The names that an import statement \<^verbatim>\<open>from <module> import <name>, <name>, ...\<close> brings
  into scope, and the names imported by the import statements of a text. The WishboneSRAM
  import is the statement that the generator writes both into the import section and into
  the SRAM fragment.
\<close>

fun after_sub :: "string \<Rightarrow> string \<Rightarrow> string option" where
  "after_sub [] sub = (if sub = [] then Some [] else None)"
| "after_sub (c # cs) sub =
     (if take (length sub) (c # cs) = sub then Some (drop (length sub) (c # cs))
      else after_sub cs sub)"

definition import_names :: "string \<Rightarrow> string list" where
  "import_names line =
     (let l = strip_left line in
      if take 5 l = ''from '' then
        (case after_sub l '' import '' of
           Some r \<Rightarrow> map strip_left (split_at (\<lambda>c. c = CHR '','') r)
         | None \<Rightarrow> [])
      else [])"

definition imported_names :: "string \<Rightarrow> string list" where
  "imported_names text = concat (map import_names (import_statements text))"

definition sram_import :: string where
  "sram_import = ''from amaranth_soc.wishbone.sram import WishboneSRAM''"

text \<open>
  The names a line calls: every maximal run of identifier characters that is directly
  followed by an opening parenthesis and not preceded by a dot, so that a method or
  attribute call \<^verbatim>\<open>x.f(...)\<close> does not count, in the order of the line. \<open>calls\<close> scans
  the line and keeps in \<open>acc\<close>, reversed, the text since the last parenthesis;
  \<open>callee\<close> reads the name that ends that text. Constructor calls such as
  \<^verbatim>\<open>GPIOPeripheral(...)\<close> and function calls such as \<^verbatim>\<open>connect(...)\<close> are read this way.
  Of the names the artifact calls, \<^verbatim>\<open>int\<close>, \<^verbatim>\<open>open\<close> and \<^verbatim>\<open>super\<close> are Python builtins,
  and \<^verbatim>\<open>MySoC\<close>, \<^verbatim>\<open>__init__\<close> and \<^verbatim>\<open>elaborate\<close> are defined by the artifact itself (the
  header of a \<^verbatim>\<open>class\<close> or \<^verbatim>\<open>def\<close> reads as a call).
\<close>

definition ident_char :: "char \<Rightarrow> bool" where
  "ident_char c \<longleftrightarrow>
     c \<in> set ''abcdefghijklmnopqrstuvwxyzABCDEFGHIJKLMNOPQRSTUVWXYZ0123456789_''"

definition callee :: "string \<Rightarrow> string option" where
  "callee r =
     (let name = rev (takeWhile ident_char r) in
      if name = [] \<or> take 1 (dropWhile ident_char r) = ''.'' then None else Some name)"

fun calls :: "string \<Rightarrow> string \<Rightarrow> string list" where
  "calls acc [] = []"
| "calls acc (c # cs) =
     (if c = CHR ''('' then (case callee acc of None \<Rightarrow> calls [] cs | Some n \<Rightarrow> n # calls [] cs)
      else calls (c # acc) cs)"

definition called_names :: "string \<Rightarrow> string list" where
  "called_names text = concat (map (calls []) (lines_of text))"

definition builtin_names :: "string list" where
  "builtin_names = [''int'', ''open'', ''super'']"

definition own_names :: "string list" where
  "own_names = [''MySoC'', ''__init__'', ''elaborate'']"

text \<open>
  A block that reaches the SPI branch of the \<^verbatim>\<open>else if\<close> chain that declares the
  interfaces: its id contains \<open>spi\<close> and neither \<open>gpio\<close> nor \<open>uart\<close>, which the
  chain tests first.
\<close>

definition spi_branch :: "block \<Rightarrow> bool" where
  "spi_branch b \<longleftrightarrow>
     includes_str (block_id b) ''spi'' \<and> \<not> includes_str (block_id b) ''gpio'' \<and>
     \<not> includes_str (block_id b) ''uart''"

text \<open>
  The artifact of a document that selects no block, written out.
\<close>

definition minimal_designPy :: string where
  "minimal_designPy =
     join ''\<newline>''
       [''from pathlib import Path'',
        '''',
        ''from amaranth import Module'',
        ''from amaranth.lib import wiring'',
        ''from amaranth.lib.wiring import Out, flipped, connect'',
        ''from amaranth_soc import csr, wishbone'',
        ''from amaranth_soc.csr.wishbone import WishboneCSRBridge'',
        ''from chipflow_digital_ip.base import SoCID'',
        ''from amaranth_soc.wishbone.sram import WishboneSRAM'',
        ''from chipflow_lib.platforms import attach_data, SoftwareBuild''] @
     designPy_class_open @
     designPy_class_close @
     memoryMap_head @ memoryMap_periph @ memoryMap_tail @
     designPy_elaborate_open @
     ''\<newline>'' @
     memoryCode_sram @ ''\<newline>'' @
     designPy_soc_id @
     designPy_main"

section \<open>Example documents\<close>

text \<open>
  A digital, enabled block with the given id, count and bit width; a document that has
  only the \<open>enabledBlocks\<close> list, one that has only the \<open>digitalBlocks\<close> list, and one
  that has neither.
\<close>

definition mk_block :: "string \<Rightarrow> nat option \<Rightarrow> nat option \<Rightarrow> block" where
  "mk_block i c w =
     \<lparr>block_id = i, block_type = Some ''digital'', enabled = Some True, count = c, bitSize = w\<rparr>"

definition doc_of :: "block list \<Rightarrow> designData" where
  "doc_of bs = \<lparr>enabledBlocks = Some bs, directDigitalBlocks = None\<rparr>"


definition doc_absent :: designData where
  "doc_absent = \<lparr>enabledBlocks = None, directDigitalBlocks = None\<rparr>"




definition doc_qspi :: designData where
  "doc_qspi = doc_of [mk_block ''qspi_flash'' None None]"


definition doc_two_spi :: designData where
  "doc_two_spi = doc_of [mk_block ''spi_a'' (Some 1) None, mk_block ''spi_b'' (Some 1) None]"

definition doc_gpio2 :: designData where
  "doc_gpio2 = doc_of [mk_block ''gpio_block'' (Some 2) (Some 4)]"

definition doc_spi_i2c :: designData where
  "doc_spi_i2c = doc_of [mk_block ''spi0'' None None, mk_block ''i2c0'' None None]"



definition doc_full :: designData where
  "doc_full =
     doc_of [mk_block ''cv32e40p_core'' None None, mk_block ''qspi_flash'' None None,
             mk_block ''gpio_a'' None (Some 4), mk_block ''gpio_b'' None None,
             mk_block ''uart0'' None None]"

section \<open>Notions used in the proofs\<close>

text \<open>
  The number of SPI instances of a list of blocks; the four lines of each IO fragment;
  the lines of the IO section; the submodule names, memory-map entries and line shapes
  that the sections of the artifact read as.
\<close>

definition spi_total :: "block list \<Rightarrow> nat" where
  "spi_total bs = sum_list (map (\<lambda>b. or_default (count b) 1) bs)"

definition ioCode_gpio_lines :: "nat \<Rightarrow> nat \<Rightarrow> string list" where
  \<open>ioCode_gpio_lines index bits =
     [''        # GPIO '' @ toString index,
      ''        m.submodules.gpio_'' @ toString index @ '' = gpio_'' @ toString index @ '' = GPIOPeripheral(pin_count='' @ toString bits @ '', addr_width=5)'',
      ''        csr_decoder.add(gpio_'' @ toString index @ ''.bus, name="gpio_'' @ toString index @ ''", addr=self.csr_gpio_base + '' @ toString index @ '' * self.periph_offset - self.csr_base)'',
      ''        connect(m, flipped(self.gpio_'' @ toString index @ ''), gpio_'' @ toString index @ ''.pins)'']\<close>

definition ioCode_uart_lines :: "nat \<Rightarrow> string list" where
  \<open>ioCode_uart_lines index =
     [''        # UART '' @ toString index,
      ''        m.submodules.uart_'' @ toString index @ '' = uart_'' @ toString index @ '' = UARTPeripheral(init_divisor=int(25e6//115200), addr_width=5)'',
      ''        csr_decoder.add(uart_'' @ toString index @ ''.bus, name="uart_'' @ toString index @ ''", addr=self.csr_uart_base + '' @ toString index @ '' * self.periph_offset - self.csr_base)'',
      ''        connect(m, flipped(self.uart_'' @ toString index @ ''), uart_'' @ toString index @ ''.pins)'']\<close>

definition ioCode_spi_lines :: "nat \<Rightarrow> string list" where
  \<open>ioCode_spi_lines spiIndex =
     [''        # SPI '' @ toString spiIndex,
      ''        m.submodules.spi_'' @ toString spiIndex @ '' = spi_'' @ toString spiIndex @ '' = SPIPeripheral()'',
      ''        csr_decoder.add(spi_'' @ toString spiIndex @ ''.bus, name="spi_'' @ toString spiIndex @ ''", addr=self.csr_spi_base + '' @ toString spiIndex @ '' * self.periph_offset - self.csr_base)'',
      ''        connect(m, flipped(self.spi_'' @ toString spiIndex @ ''), spi_'' @ toString spiIndex @ ''.spi_pins)'']\<close>

definition ioCode_i2c_lines :: "nat \<Rightarrow> string list" where
  \<open>ioCode_i2c_lines index =
     [''        # I2C '' @ toString index,
      ''        m.submodules.i2c_'' @ toString index @ '' = i2c_'' @ toString index @ '' = I2CPeripheral()'',
      ''        csr_decoder.add(i2c_'' @ toString index @ ''.bus, name="i2c_'' @ toString index @ ''", addr=self.csr_i2c_base + '' @ toString index @ '' * self.periph_offset - self.csr_base)'',
      ''        connect(m, flipped(self.i2c_'' @ toString index @ ''), i2c_'' @ toString index @ ''.i2c_pins)'']\<close>

definition prefixed :: "string list \<Rightarrow> string" where
  "prefixed ls = concat (map (\<lambda>l. CHR 0x0A # l) ls)"

definition io_lines :: "designData \<Rightarrow> string list" where
  "io_lines d =
     concat (map (\<lambda>(index, b). ioCode_gpio_lines index (or_default (bitSize b) 8))
       (enumerate 0 (gpioBlocks d))) @
     concat (map (\<lambda>(index, b). ioCode_uart_lines index) (enumerate 0 (uartBlocks d))) @
     concat (map ioCode_spi_lines [0..<spi_total (spiBlocks d)]) @
     concat (map (\<lambda>(index, b). ioCode_i2c_lines index) (enumerate 0 (i2cBlocks d)))"

definition io_submodules :: "designData \<Rightarrow> string list" where
  "io_submodules d =
     map (\<lambda>i. ''gpio_'' @ toString i) [0..<length (gpioBlocks d)] @
     map (\<lambda>i. ''uart_'' @ toString i) [0..<length (uartBlocks d)] @
     map (\<lambda>k. ''spi_'' @ toString k) [0..<spi_total (spiBlocks d)] @
     map (\<lambda>i. ''i2c_'' @ toString i) [0..<length (i2cBlocks d)]"

definition cpu_submodules :: "designData \<Rightarrow> string list" where
  "cpu_submodules d =
     (if cpu_includes (cpu d) ''cv32e40p'' then [''cpu'', ''debug'']
      else if cpu_includes (cpu d) ''minerva'' then [''cpu''] else [])"

definition memory_submodules :: "designData \<Rightarrow> string list" where
  "memory_submodules d =
     (if some_includes (memory d) ''qspi'' then [''spiflash''] else []) @ [''sram'']"

definition memoryMap_entries :: "designData \<Rightarrow> (string \<times> string) list" where
  "memoryMap_entries d =
     [(''mem_spiflash_base'', ''00000000''), (''mem_sram_base'', ''10000000''),
      (''debug_base'', ''a0000000''), (''csr_base'', ''b0000000'')] @
     (if some_includes (memory d) ''qspi'' then [(''csr_spiflash_base'', ''b0000000'')] else []) @
     [(''csr_gpio_base'', ''b1000000''), (''csr_uart_base'', ''b2000000''),
      (''csr_soc_id_base'', ''b4000000'')] @
     (if some_includes (io d) ''spi'' then [(''csr_spi_base'', ''b5000000'')] else []) @
     (if some_includes (io d) ''i2c'' then [(''csr_i2c_base'', ''b6000000'')] else [])"

definition import_shape :: "string \<Rightarrow> bool" where
  "import_shape l \<longleftrightarrow> CHR 0x0A \<notin> set l \<and> (l = [] \<or> (\<exists>r. l = ''from '' @ r))"

definition iface_shape :: "string \<Rightarrow> bool" where
  \<open>iface_shape l \<longleftrightarrow> CHR 0x0A \<notin> set l \<and> l \<noteq> [] \<and> hd l = CHR 0x22 \<and> last l = CHR '')''\<close>

definition clean_name :: "string \<Rightarrow> bool" where
  "clean_name x \<longleftrightarrow> CHR '','' \<notin> set x \<and> CHR '' '' \<notin> set x"

definition called_lines :: "string list \<Rightarrow> string list" where
  "called_lines ls = concat (map (calls []) ls)"

definition iface_calls :: "designData \<Rightarrow> string \<Rightarrow> bool" where
  "iface_calls d l \<longleftrightarrow>
     set (calls [] (''            '' @ l)) \<subseteq> insert ''Out'' (set (platformImports d)) \<and>
     set (calls [] (''            '' @ l @ '','')) \<subseteq> insert ''Out'' (set (platformImports d))"

definition allowed_names :: "designData \<Rightarrow> string set" where
  "allowed_names d =
     set (imported_names (generateDesignPy d)) \<union> set builtin_names \<union> set own_names"

section \<open>Supporting lemmas\<close>

lemma includes_str_iff: "includes_str s sub \<longleftrightarrow> (\<exists>u v. s = u @ sub @ v)"
proof (induction s)
  case Nil
  then show ?case by auto
next
  case (Cons c cs)
  have pre: "take (length sub) (c # cs) = sub \<longleftrightarrow> (\<exists>v. c # cs = sub @ v)"
    by (metis append_eq_conv_conj append_take_drop_id)
  show ?case
  proof
    assume "includes_str (c # cs) sub"
    then consider "take (length sub) (c # cs) = sub" | "includes_str cs sub" by auto
    then show "\<exists>u v. c # cs = u @ sub @ v"
    proof cases
      case 1
      then obtain v where "c # cs = sub @ v" using pre by blast
      then have "c # cs = [] @ sub @ v" by simp
      then show ?thesis by blast
    next
      case 2
      then obtain u v where "cs = u @ sub @ v" using Cons.IH by blast
      then have "c # cs = (c # u) @ sub @ v" by simp
      then show ?thesis by blast
    qed
  next
    assume "\<exists>u v. c # cs = u @ sub @ v"
    then obtain u v where uv: "c # cs = u @ sub @ v" by blast
    show "includes_str (c # cs) sub"
    proof (cases u)
      case Nil
      then have "take (length sub) (c # cs) = sub" using uv pre by auto
      then show ?thesis by simp
    next
      case (Cons a u')
      then have "cs = u' @ sub @ v" using uv by simp
      then have "includes_str cs sub" using Cons.IH by blast
      then show ?thesis by simp
    qed
  qed
qed


lemma includes_str_set: "includes_str s sub \<Longrightarrow> set sub \<subseteq> set s"
  unfolding includes_str_iff by auto

lemma digit_char_digit: "n < 10 \<Longrightarrow> digit_char n \<in> set ''0123456789''"
proof -
  assume "n < 10"
  then have "n < length ''0123456789''" by simp
  then show ?thesis unfolding digit_char_def by (rule nth_mem)
qed

lemma toString_digits: "set (toString n) \<subseteq> set ''0123456789''"
proof (induction n rule: toString.induct)
  case (1 n)
  show ?case
  proof (cases "n < 10")
    case True
    then show ?thesis using digit_char_digit[of n] by (subst toString.simps) simp
  next
    case False
    have "n mod 10 < 10" by simp
    then have "digit_char (n mod 10) \<in> set ''0123456789''" by (rule digit_char_digit)
    then show ?thesis using 1 False by (subst toString.simps) simp
  qed
qed


lemma no_blocks_digital: "allBlocks d = [] \<Longrightarrow> digitalBlocks d = []"
  by (simp add: digitalBlocks_def split: option.splits)

lemma no_digital_classes:
  assumes "digitalBlocks d = []"
  shows "processors d = []" and "memory d = []" and "io d = []" and "other d = []" and "cpu d = None"
  using assms by (simp_all add: processors_def memory_def io_def other_def cpu_def)

lemma no_digital_sections:
  assumes "digitalBlocks d = []"
  shows "cpuCode d = []" and "interfaces d = []" and "memoryFragments d = [memoryCode_sram]"
    and "ioFragments d = []"
  using no_digital_classes[OF assms]
  by (simp_all add: cpuCode_def cpu_includes_def interfaces_def fixed_interfaces_def
      some_includes_def memoryFragments_def ioFragments_def gpioFragments_def uartFragments_def
      spiFragments_def i2cFragments_def gpioBlocks_def uartBlocks_def spiBlocks_def
      i2cBlocks_def enumerate_eq_zip)

lemma no_digital_imports:
  assumes "digitalBlocks d = []"
  shows "imports_set d =
       [''from pathlib import Path'',
        '''',
        ''from amaranth import Module'',
        ''from amaranth.lib import wiring'',
        ''from amaranth.lib.wiring import Out, flipped, connect'',
        ''from amaranth_soc import csr, wishbone'',
        ''from amaranth_soc.csr.wishbone import WishboneCSRBridge'',
        ''from chipflow_digital_ip.base import SoCID'',
        ''from amaranth_soc.wishbone.sram import WishboneSRAM'',
        ''from chipflow_lib.platforms import attach_data, SoftwareBuild'']"
  using no_digital_classes[OF assms]
  by (simp add: imports_set_def platform_imports_def processor_imports_def io_imports_def
      memory_imports_def platformImports_def ioImports_def some_includes_def cpu_includes_def
      new_Set_def seed_imports_def set_add_def)

lemma no_digital_artifact:
  assumes "digitalBlocks d = []"
  shows "generateDesignPy d = minimal_designPy"
  using no_digital_classes[OF assms] no_digital_sections[OF assms]
  by (simp add: generateDesignPy_def minimal_designPy_def no_digital_imports[OF assms]
      memoryMap_def memoryCode_def ioCode_def some_includes_def)


lemma spi_for_closed:
  "spi_for n (code, k) = (code @ map ioCode_spi [k..<k + n], k + n)"
proof (induction n arbitrary: code k)
  case 0
  then show ?case by simp
next
  case (Suc n)
  have "[k..<k + Suc n] = k # [Suc k..<Suc k + n]"
    by (simp add: upt_conv_Cons)
  then show ?case using Suc.IH[of "code @ [ioCode_spi k]" "Suc k"] by simp
qed

lemma foldl_spi_block_closed:
  "foldl spi_block (code, k) bs =
     (code @ map ioCode_spi [k..<k + spi_total bs], k + spi_total bs)"
proof (induction bs arbitrary: code k)
  case Nil
  then show ?case by (simp add: spi_total_def)
next
  case (Cons b bs)
  let ?n = "or_default (count b) 1"
  have split: "[k..<k + (?n + spi_total bs)] = [k..<k + ?n] @ [k + ?n..<k + ?n + spi_total bs]"
    by (metis add.assoc le_add1 upt_add_eq_append)
  have "spi_total (b # bs) = ?n + spi_total bs" by (simp add: spi_total_def)
  then show ?case
    using Cons.IH[of "code @ map ioCode_spi [k..<k + ?n]" "k + ?n"] split
    by (simp add: spi_block_def spi_for_closed)
qed

lemma spiFragments_closed:
  "spiFragments d = map ioCode_spi [0..<spi_total (spiBlocks d)]"
  by (simp add: spiFragments_def foldl_spi_block_closed)


lemma spi_total_two:
  "count b1 = Some 1 \<Longrightarrow> count b2 = Some 1 \<Longrightarrow> spi_total [b1, b2] = 2"
  by (simp add: spi_total_def or_default_def)

lemma spiBlocks_digital:
  "spiBlocks d = filter (\<lambda>b. includes_str (block_id b) ''spi'') (digitalBlocks d)"
  by (auto simp: spiBlocks_def io_def intro: filter_cong)

lemma some_includes_iff: "some_includes bs kw \<longleftrightarrow> (\<exists>b \<in> set bs. includes_str (block_id b) kw)"
  by (simp add: some_includes_def list_ex_iff)

lemma split_at_nonempty: "split_at P s \<noteq> []"
  by (induction s) (auto split: list.splits)

lemma split_at_append_sep:
  "P c \<Longrightarrow> split_at P (a @ c # b) = split_at P a @ split_at P b"
proof (induction a)
  case Nil
  then show ?case by simp
next
  case (Cons x a)
  obtain l ls where l: "split_at P a = l # ls"
    using split_at_nonempty[of P a] by (cases "split_at P a") auto
  show ?case using Cons l by simp
qed

lemma lines_of_append_newline: "lines_of (a @ CHR 0x0A # b) = lines_of a @ lines_of b"
  by (simp add: lines_of_def split_at_append_sep)

lemma digitalBlocks_doc_of:
  "digitalBlocks (doc_of bs) = filter (\<lambda>b. block_type b = Some ''digital'') bs"
  by (simp add: digitalBlocks_def allBlocks_def doc_of_def)

lemma no_s_no_spi: "CHR ''s'' \<notin> set str \<Longrightarrow> \<not> includes_str str ''spi_''"
  using includes_str_set[of str "''spi_''"] by auto

lemma toString_no_s: "CHR ''s'' \<notin> set (toString n)"
  using toString_digits[of n] by auto

lemma iface_gpio_no_spi: "\<not> includes_str (iface_gpio i w) ''spi_''"
  by (rule no_s_no_spi) (simp add: iface_gpio_def toString_no_s)

lemma iface_uart_no_spi: "\<not> includes_str (iface_uart i) ''spi_''"
  by (rule no_s_no_spi) (simp add: iface_uart_def toString_no_s)

lemma iface_i2c_no_spi: "\<not> includes_str (iface_i2c i) ''spi_''"
  by (rule no_s_no_spi) (simp add: iface_i2c_def toString_no_s)

lemma iface_spi_spi: "includes_str (iface_spi k) ''spi_''"
  by (simp add: iface_spi_def)

lemma fixed_interfaces_no_spi:
  "filter (\<lambda>iface. includes_str iface ''spi_'') (fixed_interfaces d) = []"
  by (simp add: fixed_interfaces_def)

lemma map_shift_upt: "map (\<lambda>i. f (m + i)) [0..<n] = map f [m..<m + n]"
  by (induction n) simp_all

lemma add_io_interfaces_spi:
  assumes "filter (\<lambda>iface. includes_str iface ''spi_'') acc = map iface_spi [0..<m]"
  shows "filter (\<lambda>iface. includes_str iface ''spi_'') (add_io_interfaces acc b) =
         map iface_spi [0..<m + (if spi_branch b then or_default (count b) 1 else 0)]"
proof -
  have len: "length (filter (\<lambda>iface. includes_str iface ''spi_'') acc) = m"
    using assms by simp
  have up: "\<And>n. [0..<m + n] = [0..<m] @ [m..<m + n]"
    by (metis add.left_neutral le_add1 upt_add_eq_append)
  show ?thesis
    using assms
    by (simp add: add_io_interfaces_def Let_def spi_branch_def len up map_shift_upt
        iface_gpio_no_spi iface_uart_no_spi iface_i2c_no_spi iface_spi_spi
        filter_map comp_def)
qed

lemma foldl_add_io_interfaces_spi:
  "filter (\<lambda>iface. includes_str iface ''spi_'') acc = map iface_spi [0..<m] \<Longrightarrow>
   filter (\<lambda>iface. includes_str iface ''spi_'') (foldl add_io_interfaces acc bs) =
     map iface_spi [0..<m + spi_total (filter spi_branch bs)]"
proof (induction bs arbitrary: acc m)
  case Nil
  then show ?case by (simp add: spi_total_def)
next
  case (Cons b bs)
  have step: "filter (\<lambda>iface. includes_str iface ''spi_'') (add_io_interfaces acc b) =
         map iface_spi [0..<m + (if spi_branch b then or_default (count b) 1 else 0)]"
    using Cons.prems by (rule add_io_interfaces_spi)
  show ?case using Cons.IH[OF step] by (simp add: spi_total_def add.assoc)
qed

lemma interfaces_spi:
  "filter (\<lambda>iface. includes_str iface ''spi_'') (interfaces d) =
     map iface_spi [0..<spi_total (filter spi_branch (io d))]"
  using foldl_add_io_interfaces_spi[of "fixed_interfaces d" 0 "io d"]
  by (simp add: interfaces_def fixed_interfaces_no_spi)



lemma spi_branch_blocks:
  "filter spi_branch (io d) = filter spi_branch (digitalBlocks d)"
  by (auto simp: io_def spi_branch_def intro: filter_cong)



lemma lines_of_Nil: "lines_of [] = [[]]"
  by (simp add: lines_of_def)

lemma lines_of_newline_Cons: "lines_of (CHR 0x0A # s) = [] # lines_of s"
  by (simp add: lines_of_def)

lemma lines_of_nonempty: "lines_of s \<noteq> []"
  by (simp add: lines_of_def split_at_nonempty)

lemma tl_lines_of_append: "tl (lines_of s @ ys) = tl (lines_of s) @ ys"
  using lines_of_nonempty[of s] by (cases "lines_of s") auto

lemma lines_of_starts:
  assumes "s \<noteq> []" and "hd s = CHR 0x0A"
  shows "lines_of (a @ s @ r) = lines_of a @ tl (lines_of (s @ r))"
proof -
  have s: "s = CHR 0x0A # tl s" using assms by (cases s) auto
  have "a @ s @ r = a @ CHR 0x0A # (tl s @ r)" by (subst s) simp
  then have "lines_of (a @ s @ r) = lines_of a @ lines_of (tl s @ r)"
    by (simp only: lines_of_append_newline)
  moreover have "lines_of (s @ r) = [] # lines_of (tl s @ r)"
    by (subst s) (simp add: lines_of_newline_Cons)
  ultimately show ?thesis by simp
qed

lemma lines_of_ends:
  assumes "s \<noteq> []" and "last s = CHR 0x0A"
  shows "lines_of (s @ r) = butlast (lines_of s) @ lines_of r"
proof -
  have s: "s = butlast s @ [CHR 0x0A]" using assms by (metis append_butlast_last_id)
  have "s @ r = butlast s @ CHR 0x0A # r" by (subst s) simp
  then have 1: "lines_of (s @ r) = lines_of (butlast s) @ lines_of r"
    by (simp only: lines_of_append_newline)
  have "lines_of s = lines_of (butlast s @ CHR 0x0A # [])" using s by simp
  then have "lines_of s = lines_of (butlast s) @ [[]]"
    by (simp only: lines_of_append_newline lines_of_Nil)
  then show ?thesis using 1 by simp
qed

lemma lines_of_ends_length: "s \<noteq> [] \<Longrightarrow> last s = CHR 0x0A \<Longrightarrow> 2 \<le> length (lines_of s)"
proof -
  assume a: "s \<noteq> []" "last s = CHR 0x0A"
  have "lines_of (s @ []) = butlast (lines_of s) @ lines_of []" using a by (rule lines_of_ends)
  then have "lines_of s = butlast (lines_of s) @ [[]]" by (simp add: lines_of_Nil)
  moreover have "lines_of (butlast s) \<noteq> []" by (rule lines_of_nonempty)
  moreover have "lines_of s = lines_of (butlast s) @ [[]]"
  proof -
    have "s = butlast s @ CHR 0x0A # []" using a by (metis append_butlast_last_id)
    then have "lines_of s = lines_of (butlast s @ CHR 0x0A # [])" by simp
    then show ?thesis by (simp only: lines_of_append_newline lines_of_Nil)
  qed
  ultimately show ?thesis by (cases "lines_of (butlast s)") auto
qed

lemma lines_of_wrapped:
  assumes "s \<noteq> []" and "hd s = CHR 0x0A" and "last s = CHR 0x0A"
  shows "lines_of (a @ s @ r) = lines_of a @ tl (butlast (lines_of s)) @ lines_of r"
proof -
  have "lines_of (a @ s @ r) = lines_of a @ tl (lines_of (s @ r))"
    using assms(1,2) by (rule lines_of_starts)
  also have "lines_of (s @ r) = butlast (lines_of s) @ lines_of r"
    using assms(1,3) by (rule lines_of_ends)
  finally have 1: "lines_of (a @ s @ r) = lines_of a @ tl (butlast (lines_of s) @ lines_of r)" .
  have "lines_of s = lines_of (CHR 0x0A # tl s)" using assms(1,2) by (cases s) auto
  then have hd: "lines_of s = [] # lines_of (tl s)" by (simp add: lines_of_newline_Cons)
  have "tl s \<noteq> [] \<or> tl s = []" by simp
  have "butlast (lines_of s) \<noteq> []"
    using hd lines_of_nonempty[of "tl s"] by (cases "lines_of (tl s)") auto
  then show ?thesis using 1 by simp
qed

lemma boilerplate_ends:
  "designPy_class_open \<noteq> [] \<and> hd designPy_class_open = CHR 0x0A \<and> last designPy_class_open = CHR 0x0A"
  "designPy_class_close \<noteq> [] \<and> hd designPy_class_close = CHR 0x0A \<and> last designPy_class_close = CHR 0x0A"
  "designPy_elaborate_open \<noteq> [] \<and> hd designPy_elaborate_open = CHR 0x0A \<and> last designPy_elaborate_open = CHR 0x0A"
  "designPy_soc_id \<noteq> [] \<and> hd designPy_soc_id = CHR 0x0A"
  "designPy_attach_data \<noteq> [] \<and> hd designPy_attach_data = CHR 0x0A"
  "designPy_main \<noteq> [] \<and> hd designPy_main = CHR 0x0A"
  by (simp_all add: designPy_class_open_def designPy_class_close_def designPy_elaborate_open_def
      designPy_soc_id_def designPy_attach_data_def designPy_main_def)

theorem artifact_lines:
  "lines_of (generateDesignPy d) =
     lines_of (join ''\<newline>'' (imports_set d)) @
     tl (butlast (lines_of designPy_class_open)) @
     lines_of (join '',\<newline>'' (map (\<lambda>iface. ''            '' @ iface) (interfaces d))) @
     tl (butlast (lines_of designPy_class_close)) @
     lines_of (memoryMap d) @
     tl (butlast (lines_of designPy_elaborate_open)) @
     lines_of (cpuCode d) @
     lines_of (memoryCode d) @
     lines_of (ioCode d) @
     tl (lines_of designPy_soc_id) @
     (if some_includes (memory d) ''qspi'' then tl (lines_of designPy_attach_data) else []) @
     tl (lines_of designPy_main)"
proof -
  let ?J = "join ''\<newline>'' (imports_set d)"
  let ?I = "join '',\<newline>'' (map (\<lambda>iface. ''            '' @ iface) (interfaces d))"
  let ?A = "if some_includes (memory d) ''qspi'' then designPy_attach_data else []"
  note b = boilerplate_ends
  have main: "\<And>a. lines_of (a @ designPy_main) = lines_of a @ tl (lines_of designPy_main)"
    using lines_of_starts[of designPy_main _ "[]"] b(6) by simp
  have att: "\<And>a. lines_of (a @ ?A @ designPy_main) =
      lines_of a @ (if some_includes (memory d) ''qspi'' then tl (lines_of designPy_attach_data) else [])
        @ tl (lines_of designPy_main)"
  proof -
    fix a
    show "lines_of (a @ ?A @ designPy_main) =
      lines_of a @ (if some_includes (memory d) ''qspi'' then tl (lines_of designPy_attach_data) else [])
        @ tl (lines_of designPy_main)"
    proof (cases "some_includes (memory d) ''qspi''")
      case True
      have "lines_of (a @ designPy_attach_data @ designPy_main) =
          lines_of a @ tl (lines_of (designPy_attach_data @ designPy_main))"
        using lines_of_starts b(5) by blast
      then show ?thesis using True main[of designPy_attach_data] by (simp add: tl_lines_of_append)
    next
      case False
      then show ?thesis using main[of a] by simp
    qed
  qed
  have soc: "\<And>a. lines_of (a @ designPy_soc_id @ ?A @ designPy_main) =
      lines_of a @ tl (lines_of designPy_soc_id) @
        (if some_includes (memory d) ''qspi'' then tl (lines_of designPy_attach_data) else [])
        @ tl (lines_of designPy_main)"
  proof -
    fix a
    have "lines_of (a @ designPy_soc_id @ ?A @ designPy_main) =
        lines_of a @ tl (lines_of (designPy_soc_id @ ?A @ designPy_main))"
      using lines_of_starts b(4) by blast
    then show "lines_of (a @ designPy_soc_id @ ?A @ designPy_main) =
      lines_of a @ tl (lines_of designPy_soc_id) @
        (if some_includes (memory d) ''qspi'' then tl (lines_of designPy_attach_data) else [])
        @ tl (lines_of designPy_main)"
      using att[of designPy_soc_id] by (simp add: tl_lines_of_append)
  qed
  let ?T = "designPy_soc_id @ ?A @ designPy_main"
  have body: "lines_of (cpuCode d @ ''\<newline>'' @ memoryCode d @ ''\<newline>'' @ ioCode d @ ?T) =
      lines_of (cpuCode d) @ lines_of (memoryCode d) @ lines_of (ioCode d) @ tl (lines_of designPy_soc_id) @
        (if some_includes (memory d) ''qspi'' then tl (lines_of designPy_attach_data) else [])
        @ tl (lines_of designPy_main)"
  proof -
    have "cpuCode d @ ''\<newline>'' @ memoryCode d @ ''\<newline>'' @ ioCode d @ ?T =
        cpuCode d @ CHR 0x0A # (memoryCode d @ CHR 0x0A # (ioCode d @ ?T))" by simp
    then have "lines_of (cpuCode d @ ''\<newline>'' @ memoryCode d @ ''\<newline>'' @ ioCode d @ ?T) =
        lines_of (cpuCode d) @ lines_of (memoryCode d) @ lines_of (ioCode d @ ?T)"
      by (simp only: lines_of_append_newline)
    then show ?thesis using soc[of "ioCode d"] by simp
  qed
  have "generateDesignPy d =
      ?J @ designPy_class_open @ (?I @ designPy_class_close @ (memoryMap d @ designPy_elaborate_open @
        (cpuCode d @ ''\<newline>'' @ memoryCode d @ ''\<newline>'' @ ioCode d @ ?T)))"
    by (simp add: generateDesignPy_def)
  then have "lines_of (generateDesignPy d) =
      lines_of ?J @ tl (butlast (lines_of designPy_class_open)) @
      lines_of (?I @ designPy_class_close @ (memoryMap d @ designPy_elaborate_open @
        (cpuCode d @ ''\<newline>'' @ memoryCode d @ ''\<newline>'' @ ioCode d @ ?T)))"
    using lines_of_wrapped b(1) by simp
  also have "lines_of (?I @ designPy_class_close @ (memoryMap d @ designPy_elaborate_open @
        (cpuCode d @ ''\<newline>'' @ memoryCode d @ ''\<newline>'' @ ioCode d @ ?T))) =
      lines_of ?I @ tl (butlast (lines_of designPy_class_close)) @
      lines_of (memoryMap d @ designPy_elaborate_open @
        (cpuCode d @ ''\<newline>'' @ memoryCode d @ ''\<newline>'' @ ioCode d @ ?T))"
    using lines_of_wrapped b(2) by blast
  also have "lines_of (memoryMap d @ designPy_elaborate_open @
        (cpuCode d @ ''\<newline>'' @ memoryCode d @ ''\<newline>'' @ ioCode d @ ?T)) =
      lines_of (memoryMap d) @ tl (butlast (lines_of designPy_elaborate_open)) @
      lines_of (cpuCode d @ ''\<newline>'' @ memoryCode d @ ''\<newline>'' @ ioCode d @ ?T)"
    using lines_of_wrapped b(3) by blast
  finally show ?thesis using body by simp
qed

lemma lines_of_nlfree: "CHR 0x0A \<notin> set x \<Longrightarrow> lines_of x = [x]"
  unfolding lines_of_def by (induction x) (auto split: list.splits)

lemma lines_of_line: "CHR 0x0A \<notin> set x \<Longrightarrow> lines_of (x @ CHR 0x0A # r) = x # lines_of r"
  by (simp add: lines_of_append_newline lines_of_nlfree)

lemma lines_of_join:
  "ls \<noteq> [] \<Longrightarrow> \<forall>l \<in> set ls. CHR 0x0A \<notin> set l \<Longrightarrow> lines_of (join ''\<newline>'' ls) = ls"
proof (induction "''\<newline>''" ls rule: join.induct)
  case 1
  then show ?case by simp
next
  case (2 x)
  then show ?case by (simp add: lines_of_nlfree)
next
  case (3 x y ys)
  have "lines_of (join ''\<newline>'' (x # y # ys)) = lines_of (x @ CHR 0x0A # join ''\<newline>'' (y # ys))"
    by simp
  also have "\<dots> = x # lines_of (join ''\<newline>'' (y # ys))"
    using "3.prems" by (simp add: lines_of_line)
  also have "\<dots> = x # y # ys" using 3 by simp
  finally show ?case .
qed

lemma toString_nlfree: "CHR 0x0A \<notin> set (toString n)"
  using toString_digits[of n] by auto

lemma toString_no_space: "CHR '' '' \<notin> set (toString n)"
  using toString_digits[of n] by auto

lemma toString_nonempty: "toString n \<noteq> []"
  by (subst toString.simps) simp

lemma ioCode_gpio_text:
  "ioCode_gpio i w = concat (map (\<lambda>l. CHR 0x0A # l) (ioCode_gpio_lines i w))"
  by (simp add: ioCode_gpio_def ioCode_gpio_lines_def)

lemma ioCode_uart_text:
  "ioCode_uart i = concat (map (\<lambda>l. CHR 0x0A # l) (ioCode_uart_lines i))"
  by (simp add: ioCode_uart_def ioCode_uart_lines_def)

lemma ioCode_spi_text:
  "ioCode_spi i = concat (map (\<lambda>l. CHR 0x0A # l) (ioCode_spi_lines i))"
  by (simp add: ioCode_spi_def ioCode_spi_lines_def)

lemma ioCode_i2c_text:
  "ioCode_i2c i = concat (map (\<lambda>l. CHR 0x0A # l) (ioCode_i2c_lines i))"
  by (simp add: ioCode_i2c_def ioCode_i2c_lines_def)

lemma io_lines_nlfree:
  "\<forall>l \<in> set (ioCode_gpio_lines i w). CHR 0x0A \<notin> set l"
  "\<forall>l \<in> set (ioCode_uart_lines i). CHR 0x0A \<notin> set l"
  "\<forall>l \<in> set (ioCode_spi_lines i). CHR 0x0A \<notin> set l"
  "\<forall>l \<in> set (ioCode_i2c_lines i). CHR 0x0A \<notin> set l"
  by (simp_all add: ioCode_gpio_lines_def ioCode_uart_lines_def ioCode_spi_lines_def
      ioCode_i2c_lines_def toString_nlfree)

lemma prefixed_simps:
  "prefixed [] = []" "prefixed (l # ls) = CHR 0x0A # l @ prefixed ls"
  "prefixed (xs @ ys) = prefixed xs @ prefixed ys"
  by (simp_all add: prefixed_def)

lemma concat_prefixed: "concat (map (\<lambda>x. prefixed (g x)) xs) = prefixed (concat (map g xs))"
  by (induction xs) (simp_all add: prefixed_simps)

lemma lines_of_line_prefixed:
  "CHR 0x0A \<notin> set l \<Longrightarrow> \<forall>x \<in> set ls. CHR 0x0A \<notin> set x \<Longrightarrow> lines_of (l @ prefixed ls) = l # ls"
proof (induction ls arbitrary: l)
  case Nil
  then show ?case by (simp add: prefixed_simps lines_of_nlfree)
next
  case (Cons x xs)
  have "lines_of (l @ prefixed (x # xs)) = l # lines_of (x @ prefixed xs)"
    using Cons.prems(1) by (simp add: prefixed_simps lines_of_line)
  then show ?case using Cons by simp
qed

lemma lines_of_prefixed:
  "\<forall>x \<in> set ls. CHR 0x0A \<notin> set x \<Longrightarrow> lines_of (prefixed ls) = [] # ls"
  using lines_of_line_prefixed[of "[]" ls] by simp

lemma ioCode_prefixed: "ioCode d = prefixed (io_lines d)"
proof -
  have g: "gpioFragments d = map (\<lambda>(index, b). prefixed (ioCode_gpio_lines index (or_default (bitSize b) 8)))
      (enumerate 0 (gpioBlocks d))"
    by (simp add: gpioFragments_def ioCode_gpio_text prefixed_def)
  have u: "uartFragments d = map (\<lambda>(index, b). prefixed (ioCode_uart_lines index)) (enumerate 0 (uartBlocks d))"
    by (simp add: uartFragments_def ioCode_uart_text prefixed_def)
  have s: "spiFragments d = map (\<lambda>k. prefixed (ioCode_spi_lines k)) [0..<spi_total (spiBlocks d)]"
    by (simp add: spiFragments_closed ioCode_spi_text prefixed_def)
  have i: "i2cFragments d = map (\<lambda>(index, b). prefixed (ioCode_i2c_lines index)) (enumerate 0 (i2cBlocks d))"
    by (simp add: i2cFragments_def ioCode_i2c_text prefixed_def)
  have c: "\<And>g xs. concat (map (\<lambda>(index, b). prefixed (g index b)) xs) =
      prefixed (concat (map (\<lambda>(index, b). g index b) xs))"
    using concat_prefixed[of "\<lambda>(index, b). _ index b"] by (simp add: case_prod_unfold)
  show ?thesis
    unfolding ioCode_def ioFragments_def io_lines_def g u s i
    by (simp add: prefixed_simps c concat_prefixed)
qed

lemma io_lines_nlfree_all: "\<forall>l \<in> set (io_lines d). CHR 0x0A \<notin> set l"
  using io_lines_nlfree by (auto simp: io_lines_def)

lemma lines_of_ioCode: "lines_of (ioCode d) = [] # io_lines d"
  unfolding ioCode_prefixed using io_lines_nlfree_all by (rule lines_of_prefixed)

lemma memory_starts:
  "memoryCode_qspi \<noteq> [] \<and> hd memoryCode_qspi = CHR 0x0A"
  "memoryCode_sram \<noteq> [] \<and> hd memoryCode_sram = CHR 0x0A"
  by (simp_all add: memoryCode_qspi_def memoryCode_sram_def)

lemma lines_of_memoryCode:
  "lines_of (memoryCode d) =
     [] # (if some_includes (memory d) ''qspi'' then tl (lines_of memoryCode_qspi) else []) @
     tl (lines_of memoryCode_sram)"
proof -
  have s: "\<And>a. lines_of (a @ memoryCode_sram) = lines_of a @ tl (lines_of memoryCode_sram)"
    using lines_of_starts[of memoryCode_sram _ "[]"] memory_starts(2) by simp
  show ?thesis
  proof (cases "some_includes (memory d) ''qspi''")
    case True
    have "lines_of ([] @ memoryCode_qspi @ memoryCode_sram) =
        lines_of [] @ tl (lines_of (memoryCode_qspi @ memoryCode_sram))"
      using memory_starts(1) by (intro lines_of_starts) simp_all
    then show ?thesis using True s[of memoryCode_qspi]
      by (simp add: memoryCode_def memoryFragments_def lines_of_Nil tl_lines_of_append)
  next
    case False
    then show ?thesis using s[of "[]"]
      by (simp add: memoryCode_def memoryFragments_def lines_of_Nil)
  qed
qed

lemma lines_of_cpuCode:
  "lines_of (cpuCode d) =
     (if cpu_includes (cpu d) ''cv32e40p'' then lines_of cpuCode_cv32e40p
      else if cpu_includes (cpu d) ''minerva'' then lines_of cpuCode_minerva
      else [[]])"
  by (simp add: cpuCode_def lines_of_Nil)

lemma memoryMap_starts:
  "memoryMap_spiflash \<noteq> [] \<and> hd memoryMap_spiflash = CHR 0x0A"
  "memoryMap_periph \<noteq> [] \<and> hd memoryMap_periph = CHR 0x0A"
  "memoryMap_spi \<noteq> [] \<and> hd memoryMap_spi = CHR 0x0A"
  "memoryMap_i2c \<noteq> [] \<and> hd memoryMap_i2c = CHR 0x0A"
  "memoryMap_tail \<noteq> [] \<and> hd memoryMap_tail = CHR 0x0A"
  by (simp_all add: memoryMap_spiflash_def memoryMap_periph_def memoryMap_spi_def
      memoryMap_i2c_def memoryMap_tail_def)

lemma lines_of_piece:
  "s \<noteq> [] \<and> hd s = CHR 0x0A \<Longrightarrow> lines_of (a @ s) = lines_of a @ tl (lines_of s)"
  using lines_of_starts[of s a "[]"] by simp

lemma lines_of_opt_piece:
  "s \<noteq> [] \<and> hd s = CHR 0x0A \<Longrightarrow>
     lines_of (a @ (if c then s else [])) = lines_of a @ (if c then tl (lines_of s) else [])"
  by (simp add: lines_of_piece)

lemma lines_of_memoryMap:
  "lines_of (memoryMap d) =
     lines_of memoryMap_head @
     (if some_includes (memory d) ''qspi'' then tl (lines_of memoryMap_spiflash) else []) @
     tl (lines_of memoryMap_periph) @
     (if some_includes (io d) ''spi'' then tl (lines_of memoryMap_spi) else []) @
     (if some_includes (io d) ''i2c'' then tl (lines_of memoryMap_i2c) else []) @
     tl (lines_of memoryMap_tail)"
proof -
  let ?q = "if some_includes (memory d) ''qspi'' then memoryMap_spiflash else []"
  let ?s = "if some_includes (io d) ''spi'' then memoryMap_spi else []"
  let ?i = "if some_includes (io d) ''i2c'' then memoryMap_i2c else []"
  have 0: "memoryMap d = ((((memoryMap_head @ ?q) @ memoryMap_periph) @ ?s) @ ?i) @ memoryMap_tail"
    by (simp add: memoryMap_def)
  show ?thesis
    unfolding 0
    by (simp only: lines_of_piece[OF memoryMap_starts(5)] lines_of_opt_piece[OF memoryMap_starts(4)]
        lines_of_opt_piece[OF memoryMap_starts(3)] lines_of_piece[OF memoryMap_starts(2)]
        lines_of_opt_piece[OF memoryMap_starts(1)]) simp
qed

lemma map_filter_append: "List.map_filter f (xs @ ys) = List.map_filter f xs @ List.map_filter f ys"
  by (simp add: List.map_filter_def)

lemma map_filter_concat:
  "List.map_filter f (concat xss) = concat (map (List.map_filter f) xss)"
  by (induction xss) (simp_all add: map_filter_append List.map_filter_def)

lemma read_class_open: "List.map_filter read_line (tl (butlast (lines_of designPy_class_open))) = []"
  by code_simp

lemma read_class_close: "List.map_filter read_line (tl (butlast (lines_of designPy_class_close))) = []"
  by code_simp

lemma read_elaborate_open:
  "List.map_filter read_line (tl (butlast (lines_of designPy_elaborate_open))) =
     [Submodule ''wb_arbiter'', Submodule ''wb_decoder'', Submodule ''csr_decoder'']"
  by code_simp

lemma read_soc_id:
  "List.map_filter read_line (tl (lines_of designPy_soc_id)) =
     [Submodule ''soc_id'', Submodule ''wb_to_csr'']"
  by code_simp

lemma read_attach_data: "List.map_filter read_line (tl (lines_of designPy_attach_data)) = []"
  by code_simp

lemma read_main:
  "List.map_filter read_line (tl (lines_of designPy_main)) = [Import ''from amaranth.back import verilog'']"
  by code_simp

lemma read_cv32e40p:
  "List.map_filter read_line (lines_of cpuCode_cv32e40p) = [Submodule ''cpu'', Submodule ''debug'']"
  by code_simp

lemma read_minerva:
  "List.map_filter read_line (lines_of cpuCode_minerva) = [Submodule ''cpu'']"
  by code_simp

lemma read_qspi:
  "List.map_filter read_line (tl (lines_of memoryCode_qspi)) = [Submodule ''spiflash'']"
  by code_simp

lemma read_sram:
  "List.map_filter read_line (tl (lines_of memoryCode_sram)) =
     [Import ''from amaranth_soc.wishbone.sram import WishboneSRAM'', Submodule ''sram'']"
  by code_simp

lemma read_memoryMap_head:
  "List.map_filter read_line (lines_of memoryMap_head) =
     [Base ''mem_spiflash_base'' ''00000000'', Base ''mem_sram_base'' ''10000000'',
      Base ''debug_base'' ''a0000000'', Base ''csr_base'' ''b0000000'']"
  by code_simp

lemma read_memoryMap_spiflash:
  "List.map_filter read_line (tl (lines_of memoryMap_spiflash)) = [Base ''csr_spiflash_base'' ''b0000000'']"
  by code_simp

lemma read_memoryMap_periph:
  "List.map_filter read_line (tl (lines_of memoryMap_periph)) =
     [Base ''csr_gpio_base'' ''b1000000'', Base ''csr_uart_base'' ''b2000000'',
      Base ''csr_soc_id_base'' ''b4000000'']"
  by code_simp

lemma read_memoryMap_spi:
  "List.map_filter read_line (tl (lines_of memoryMap_spi)) = [Base ''csr_spi_base'' ''b5000000'']"
  by code_simp

lemma read_memoryMap_i2c:
  "List.map_filter read_line (tl (lines_of memoryMap_i2c)) = [Base ''csr_i2c_base'' ''b6000000'']"
  by code_simp

lemma read_memoryMap_tail: "List.map_filter read_line (tl (lines_of memoryMap_tail)) = []"
  by code_simp

lemma takeWhile_no_space:
  "CHR '' '' \<notin> set x \<Longrightarrow> takeWhile (\<lambda>c. c \<noteq> CHR '' '') (x @ CHR '' '' # r) = x"
  by (induction x) auto

lemma read_gpio_lines:
  "List.map_filter read_line (ioCode_gpio_lines i w) = [Submodule (''gpio_'' @ toString i)]"
  using takeWhile_no_space[OF toString_no_space, of i]
  by (simp add: ioCode_gpio_lines_def List.map_filter_simps read_line_def strip_left_def
      base_entry_text_def)

lemma read_uart_lines:
  "List.map_filter read_line (ioCode_uart_lines i) = [Submodule (''uart_'' @ toString i)]"
  using takeWhile_no_space[OF toString_no_space, of i]
  by (simp add: ioCode_uart_lines_def List.map_filter_simps read_line_def strip_left_def
      base_entry_text_def)

lemma read_spi_lines:
  "List.map_filter read_line (ioCode_spi_lines i) = [Submodule (''spi_'' @ toString i)]"
  using takeWhile_no_space[OF toString_no_space, of i]
  by (simp add: ioCode_spi_lines_def List.map_filter_simps read_line_def strip_left_def
      base_entry_text_def)

lemma read_i2c_lines:
  "List.map_filter read_line (ioCode_i2c_lines i) = [Submodule (''i2c_'' @ toString i)]"
  using takeWhile_no_space[OF toString_no_space, of i]
  by (simp add: ioCode_i2c_lines_def List.map_filter_simps read_line_def strip_left_def
      base_entry_text_def)

lemma concat_enumerate:
  "concat (map (\<lambda>(i, b). [g i]) (enumerate 0 xs)) = map g [0..<length xs]"
proof -
  have "concat (map (\<lambda>(i, b). [g i]) (enumerate 0 xs)) = map (\<lambda>p. g (fst p)) (enumerate 0 xs)"
    by (induction "enumerate 0 xs") (auto simp: case_prod_unfold concat_map_singleton)
  also have "\<dots> = map g (map fst (enumerate 0 xs))" by (simp only: map_map comp_def)
  also have "\<dots> = map g [0..<length xs]" unfolding map_fst_enumerate by simp
  finally show ?thesis .
qed

lemma read_io_lines:
  "List.map_filter read_line (io_lines d) = map Submodule (io_submodules d)"
proof -
  have g: "concat (map (List.map_filter read_line)
        (map (\<lambda>(index, b). ioCode_gpio_lines index (or_default (bitSize b) 8)) (enumerate 0 (gpioBlocks d)))) =
      map (\<lambda>i. Submodule (''gpio_'' @ toString i)) [0..<length (gpioBlocks d)]"
    using concat_enumerate[of "\<lambda>i. Submodule (''gpio_'' @ toString i)" "gpioBlocks d"]
    by (simp add: read_gpio_lines comp_def case_prod_unfold)
  have u: "concat (map (List.map_filter read_line)
        (map (\<lambda>(index, b). ioCode_uart_lines index) (enumerate 0 (uartBlocks d)))) =
      map (\<lambda>i. Submodule (''uart_'' @ toString i)) [0..<length (uartBlocks d)]"
    using concat_enumerate[of "\<lambda>i. Submodule (''uart_'' @ toString i)" "uartBlocks d"]
    by (simp add: read_uart_lines comp_def case_prod_unfold)
  have i: "concat (map (List.map_filter read_line)
        (map (\<lambda>(index, b). ioCode_i2c_lines index) (enumerate 0 (i2cBlocks d)))) =
      map (\<lambda>i. Submodule (''i2c_'' @ toString i)) [0..<length (i2cBlocks d)]"
    using concat_enumerate[of "\<lambda>i. Submodule (''i2c_'' @ toString i)" "i2cBlocks d"]
    by (simp add: read_i2c_lines comp_def case_prod_unfold)
  have s: "concat (map (List.map_filter read_line) (map ioCode_spi_lines [0..<n])) =
      map (\<lambda>k. Submodule (''spi_'' @ toString k)) [0..<n]" for n
    by (induction n) (simp_all add: read_spi_lines)
  show ?thesis
    unfolding io_lines_def io_submodules_def map_filter_append map_filter_concat g u i s
    by simp
qed

lemma set_set_add: "set (set_add s x) = insert x (set s)"
  by (auto simp: set_add_def)

lemma distinct_set_add: "distinct s \<Longrightarrow> distinct (set_add s x)"
  by (simp add: set_add_def)

lemma set_foldl_set_add: "set (foldl set_add s xs) = set s \<union> set xs"
  by (induction xs arbitrary: s) (auto simp: set_set_add)

lemma distinct_foldl_set_add: "distinct s \<Longrightarrow> distinct (foldl set_add s xs)"
  by (induction xs arbitrary: s) (simp_all add: distinct_set_add)

lemma set_join: "set (join sep xs) \<subseteq> set sep \<union> \<Union> (set ` set xs)"
  by (induction sep xs rule: join.induct) auto

lemma ioImports_nlfree: "CHR 0x0A \<notin> set (join '', '' (ioImports d))"
proof -
  have "\<forall>x \<in> set (ioImports d). CHR 0x0A \<notin> set x"
    by (auto simp: ioImports_def)
  then show ?thesis using set_join[of "'', ''" "ioImports d"] by auto
qed

lemma platformImports_nlfree: "CHR 0x0A \<notin> set (join '', '' (platformImports d))"
proof -
  have "\<forall>x \<in> set (platformImports d). CHR 0x0A \<notin> set x"
    by (auto simp: platformImports_def)
  then show ?thesis using set_join[of "'', ''" "platformImports d"] by auto
qed

lemma import_shape_add: "import_shape x \<Longrightarrow> \<forall>l \<in> set s. import_shape l \<Longrightarrow>
    \<forall>l \<in> set (set_add s x). import_shape l"
  by (simp add: set_set_add)

lemma seed_shape: "\<forall>l \<in> set (new_Set seed_imports). import_shape l"
  unfolding new_Set_def set_foldl_set_add by (simp add: seed_imports_def import_shape_def)

lemma imports_shape: "\<forall>l \<in> set (imports_set d). import_shape l"
proof -
  have m: "\<forall>l \<in> set (memory_imports d (new_Set seed_imports)). import_shape l"
    using seed_shape by (simp add: memory_imports_def Let_def set_set_add import_shape_def)
  have i: "\<forall>l \<in> set (io_imports d (memory_imports d (new_Set seed_imports))). import_shape l"
    using m ioImports_nlfree[of d] by (simp add: io_imports_def set_set_add import_shape_def)
  have p: "\<forall>l \<in> set (processor_imports d (io_imports d (memory_imports d (new_Set seed_imports)))).
      import_shape l"
    using i by (simp add: processor_imports_def set_set_add import_shape_def)
  show ?thesis
    using p platformImports_nlfree[of d]
    by (simp add: imports_set_def platform_imports_def set_set_add import_shape_def)
qed

lemma set_add_nonempty: "set_add s x \<noteq> []"
  by (auto simp: set_add_def)

lemma imports_nonempty: "imports_set d \<noteq> []"
  by (simp add: imports_set_def platform_imports_def set_add_nonempty)

lemma distinct_imports: "distinct (imports_set d)"
  by (simp add: imports_set_def platform_imports_def processor_imports_def io_imports_def
      memory_imports_def Let_def new_Set_def distinct_set_add distinct_foldl_set_add)

lemma read_import_line:
  "import_shape l \<Longrightarrow> read_line l = (if l = [] then None else Some (Import l))"
  by (auto simp: import_shape_def read_line_def strip_left_def base_entry_text_def)

lemma read_imports:
  "List.map_filter read_line (lines_of (join ''\<newline>'' (imports_set d))) =
     map Import (filter (\<lambda>l. l \<noteq> []) (imports_set d))"
proof -
  have "lines_of (join ''\<newline>'' (imports_set d)) = imports_set d"
    using imports_nonempty imports_shape by (intro lines_of_join) (auto simp: import_shape_def)
  moreover have "\<forall>l \<in> set ls. import_shape l \<Longrightarrow>
      List.map_filter read_line ls = map Import (filter (\<lambda>l. l \<noteq> []) ls)" for ls
    by (induction ls) (simp_all add: List.map_filter_simps read_import_line)
  ultimately show ?thesis using imports_shape by simp
qed

lemma iface_shapes:
  "iface_shape (iface_gpio i w)" "iface_shape (iface_uart i)"
  "iface_shape (iface_spi i)" "iface_shape (iface_i2c i)"
  by (simp_all add: iface_shape_def iface_gpio_def iface_uart_def iface_spi_def iface_i2c_def
      toString_nlfree)

lemma add_io_interfaces_shape:
  "\<forall>l \<in> set s. iface_shape l \<Longrightarrow> \<forall>l \<in> set (add_io_interfaces s b). iface_shape l"
  by (auto simp: add_io_interfaces_def Let_def iface_shapes)

lemma foldl_add_io_interfaces_shape:
  "\<forall>l \<in> set s. iface_shape l \<Longrightarrow> \<forall>l \<in> set (foldl add_io_interfaces s bs). iface_shape l"
proof (induction bs arbitrary: s)
  case Nil
  then show ?case by simp
next
  case (Cons b bs)
  from Cons.prems have "\<forall>l \<in> set (add_io_interfaces s b). iface_shape l"
    by (rule add_io_interfaces_shape)
  then have "\<forall>l \<in> set (foldl add_io_interfaces (add_io_interfaces s b) bs). iface_shape l"
    by (rule Cons.IH)
  then show ?case by simp
qed

lemma fixed_interfaces_shape: "\<forall>l \<in> set (fixed_interfaces d). iface_shape l"
  by (auto simp: fixed_interfaces_def iface_shape_def)

lemma interfaces_shape: "\<forall>l \<in> set (interfaces d). iface_shape l"
  unfolding interfaces_def using fixed_interfaces_shape by (rule foldl_add_io_interfaces_shape)

lemma read_iface_line:
  assumes "iface_shape l"
  shows "read_line (''            '' @ l) = Some (Interface l)"
    and "read_line (''            '' @ l @ '','') = Some (Interface l)"
proof -
  from assms obtain r where l: "l = CHR 0x22 # r" and e: "last (CHR 0x22 # r) = CHR '')''"
    by (cases l) (auto simp: iface_shape_def)
  show "read_line (''            '' @ l) = Some (Interface l)"
    using e by (simp add: l read_line_def strip_left_def)
  show "read_line (''            '' @ l @ '','') = Some (Interface l)"
    by (simp add: l read_line_def strip_left_def butlast_append)
qed

lemma read_interfaces_aux:
  "\<forall>l \<in> set ls. iface_shape l \<Longrightarrow> ls \<noteq> [] \<Longrightarrow>
     List.map_filter read_line
       (lines_of (join '',\<newline>'' (map (\<lambda>iface. ''            '' @ iface) ls))) = map Interface ls"
proof (induction ls rule: induct_list012)
  case 1
  then show ?case by simp
next
  case (2 x)
  then have "CHR 0x0A \<notin> set (''            '' @ x)" by (simp add: iface_shape_def)
  then show ?case using 2 read_iface_line(1)[of x]
    by (simp add: lines_of_nlfree List.map_filter_simps del: append.simps)
next
  case (3 x y zs)
  have n: "CHR 0x0A \<notin> set (''            '' @ x @ '','')" using 3(3) by (simp add: iface_shape_def)
  have "join '',\<newline>'' (map (\<lambda>iface. ''            '' @ iface) (x # y # zs)) =
      (''            '' @ x @ '','') @ CHR 0x0A # join '',\<newline>'' (map (\<lambda>iface. ''            '' @ iface) (y # zs))"
    by simp
  then have "lines_of (join '',\<newline>'' (map (\<lambda>iface. ''            '' @ iface) (x # y # zs))) =
      (''            '' @ x @ '','') # lines_of (join '',\<newline>'' (map (\<lambda>iface. ''            '' @ iface) (y # zs)))"
    using lines_of_line[OF n] by simp
  then show ?case using 3 read_iface_line(2)[of x]
    by (simp add: List.map_filter_simps del: append.simps join.simps)
qed

lemma read_interfaces:
  "List.map_filter read_line
     (lines_of (join '',\<newline>'' (map (\<lambda>iface. ''            '' @ iface) (interfaces d)))) =
   map Interface (interfaces d)"
proof (cases "interfaces d = []")
  case True
  then show ?thesis by (simp add: lines_of_Nil List.map_filter_simps read_line_def strip_left_def base_entry_text_def)
next
  case False
  then show ?thesis using interfaces_shape by (intro read_interfaces_aux) simp_all
qed

lemma read_empty_line: "read_line [] = None"
  by (simp add: read_line_def strip_left_def base_entry_text_def)

lemma read_memoryMap:
  "List.map_filter read_line (lines_of (memoryMap d)) =
     map (\<lambda>(n, a). Base n a) (memoryMap_entries d)"
  unfolding lines_of_memoryMap map_filter_append memoryMap_entries_def
  by (simp add: read_memoryMap_head read_memoryMap_spiflash read_memoryMap_periph
      read_memoryMap_spi read_memoryMap_i2c read_memoryMap_tail List.map_filter_simps)

lemma read_cpuCode:
  "List.map_filter read_line (lines_of (cpuCode d)) = map Submodule (cpu_submodules d)"
  unfolding lines_of_cpuCode cpu_submodules_def
  by (simp add: read_cv32e40p read_minerva List.map_filter_simps read_empty_line)

lemma read_memoryCode:
  "List.map_filter read_line (lines_of (memoryCode d)) =
     (if some_includes (memory d) ''qspi'' then [Submodule ''spiflash''] else []) @
     [Import ''from amaranth_soc.wishbone.sram import WishboneSRAM'', Submodule ''sram'']"
  unfolding lines_of_memoryCode
  by (simp add: map_filter_append read_qspi read_sram List.map_filter_simps read_empty_line)

lemma read_ioCode:
  "List.map_filter read_line (lines_of (ioCode d)) = map Submodule (io_submodules d)"
  unfolding lines_of_ioCode by (simp add: List.map_filter_simps read_empty_line read_io_lines)

theorem artifact_readings:
  "readings (generateDesignPy d) =
     map Import (filter (\<lambda>l. l \<noteq> []) (imports_set d)) @
     map Interface (interfaces d) @
     map (\<lambda>(n, a). Base n a) (memoryMap_entries d) @
     map Submodule [''wb_arbiter'', ''wb_decoder'', ''csr_decoder''] @
     map Submodule (cpu_submodules d) @
     (if some_includes (memory d) ''qspi'' then [Submodule ''spiflash''] else []) @
     [Import ''from amaranth_soc.wishbone.sram import WishboneSRAM'', Submodule ''sram''] @
     map Submodule (io_submodules d) @
     [Submodule ''soc_id'', Submodule ''wb_to_csr'', Import ''from amaranth.back import verilog'']"
  unfolding readings_def artifact_lines map_filter_append
    read_imports read_interfaces read_memoryMap read_cpuCode read_memoryCode read_ioCode
    read_class_open read_class_close read_elaborate_open read_soc_id read_main
  by (simp add: read_attach_data)

lemma map_filter_map_None: "(\<And>x. f (g x) = None) \<Longrightarrow> List.map_filter f (map g xs) = []"
  by (induction xs) (simp_all add: List.map_filter_simps)

lemma map_filter_map_Some: "(\<And>x. f (g x) = Some (h x)) \<Longrightarrow> List.map_filter f (map g xs) = map h xs"
  by (induction xs) (simp_all add: List.map_filter_simps)

lemma interface_decls_artifact: "interface_decls (generateDesignPy d) = interfaces d"
  unfolding interface_decls_def artifact_readings map_filter_append
  by (simp add: map_filter_map_None map_filter_map_Some[where h = "\<lambda>x. x"] List.map_filter_simps
      case_prod_unfold)

lemma submodules_artifact:
  "submodules (generateDesignPy d) =
     [''wb_arbiter'', ''wb_decoder'', ''csr_decoder''] @ cpu_submodules d @
     memory_submodules d @ io_submodules d @ [''soc_id'', ''wb_to_csr'']"
  unfolding submodules_def artifact_readings map_filter_append
  by (simp add: map_filter_map_None map_filter_map_Some[where h = "\<lambda>x. x"] List.map_filter_simps
      case_prod_unfold memory_submodules_def)

lemma import_statements_artifact:
  "import_statements (generateDesignPy d) =
     filter (\<lambda>l. l \<noteq> []) (imports_set d) @
     [''from amaranth_soc.wishbone.sram import WishboneSRAM'', ''from amaranth.back import verilog'']"
  unfolding import_statements_def artifact_readings map_filter_append
  by (simp add: map_filter_map_None map_filter_map_Some[where h = "\<lambda>x. x"] List.map_filter_simps
      case_prod_unfold)

lemma hex_vals:
  "hex_val ''00000000'' = 0x00000000" "hex_val ''10000000'' = 0x10000000"
  "hex_val ''a0000000'' = 0xa0000000" "hex_val ''b0000000'' = 0xb0000000"
  "hex_val ''b1000000'' = 0xb1000000" "hex_val ''b2000000'' = 0xb2000000"
  "hex_val ''b4000000'' = 0xb4000000" "hex_val ''b5000000'' = 0xb5000000"
  "hex_val ''b6000000'' = 0xb6000000"
  by (simp_all add: hex_val_def hex_digit_def)

lemma base_entries_artifact:
  "base_entries (generateDesignPy d) =
     [(''mem_spiflash_base'', 0x00000000), (''mem_sram_base'', 0x10000000),
      (''debug_base'', 0xa0000000), (''csr_base'', 0xb0000000)] @
     (if some_includes (memory d) ''qspi'' then [(''csr_spiflash_base'', 0xb0000000)] else []) @
     [(''csr_gpio_base'', 0xb1000000), (''csr_uart_base'', 0xb2000000),
      (''csr_soc_id_base'', 0xb4000000)] @
     (if some_includes (io d) ''spi'' then [(''csr_spi_base'', 0xb5000000)] else []) @
     (if some_includes (io d) ''i2c'' then [(''csr_i2c_base'', 0xb6000000)] else [])"
proof -
  have "base_entries (generateDesignPy d) = map (\<lambda>(n, a). (n, hex_val a)) (memoryMap_entries d)"
    unfolding base_entries_def artifact_readings map_filter_append
    by (simp add: map_filter_map_None
        map_filter_map_Some[where h = "\<lambda>(n, a). (n, hex_val a)"] List.map_filter_simps
        case_prod_unfold)
  then show ?thesis by (simp add: memoryMap_entries_def hex_vals)
qed







lemma filter_map_all: "(\<And>x. P (f x)) \<Longrightarrow> filter P (map f xs) = map f xs"
  by (induction xs) simp_all

lemma filter_map_none: "(\<And>x. \<not> P (f x)) \<Longrightarrow> filter P (map f xs) = []"
  by (induction xs) simp_all

lemma spi_submodules:
  "filter is_spi_name (submodules (generateDesignPy d)) =
     map (\<lambda>k. ''spi_'' @ toString k) [0..<spi_total (spiBlocks d)]"
proof -
  have c: "filter is_spi_name (cpu_submodules d) = []"
    by (simp add: cpu_submodules_def is_spi_name_def)
  have m: "filter is_spi_name (memory_submodules d) = []"
    by (simp add: memory_submodules_def is_spi_name_def)
  have i: "filter is_spi_name (io_submodules d) =
      map (\<lambda>k. ''spi_'' @ toString k) [0..<spi_total (spiBlocks d)]"
    unfolding io_submodules_def filter_append
    by (simp add: filter_map_all filter_map_none is_spi_name_def)
  show ?thesis unfolding submodules_artifact filter_append c m i
    by (simp add: is_spi_name_def)
qed


lemma upt_two: "[0..<2] = [0, Suc 0]"
  by (simp add: upt_conv_Cons)

lemma toString_01: "toString 0 = ''0''" "toString (Suc 0) = ''1''"
  by (simp_all add: toString.simps digit_char_def)

lemma iface_spi_01:
  \<open>iface_spi 0 = ''"spi_0": Out(SPISignature())''\<close>
  \<open>iface_spi (Suc 0) = ''"spi_1": Out(SPISignature())''\<close>
  by (simp_all add: iface_spi_def toString.simps digit_char_def)







lemma called_class_open:
  "concat (map (calls []) (tl (butlast (lines_of designPy_class_open)))) =
     [''MySoC'', ''__init__'', ''super'']"
  by code_simp

lemma called_class_close:
  "concat (map (calls []) (tl (butlast (lines_of designPy_class_close)))) = []"
  by code_simp

lemma called_elaborate_open:
  "concat (map (calls []) (tl (butlast (lines_of designPy_elaborate_open)))) =
     [''elaborate'', ''Module'', ''connect'']"
  by code_simp

lemma called_soc_id:
  "concat (map (calls []) (tl (lines_of designPy_soc_id))) =
     [''SoCID'', ''WishboneCSRBridge'', ''SoftwareBuild'', ''Path'']"
  by code_simp

lemma called_attach_data:
  "concat (map (calls []) (tl (lines_of designPy_attach_data))) = [''attach_data'']"
  by code_simp

lemma called_main:
  "concat (map (calls []) (tl (lines_of designPy_main))) = [''MySoC'', ''open'']"
  by code_simp

lemma called_cv32e40p:
  "concat (map (calls []) (lines_of cpuCode_cv32e40p)) = [''CV32E40P'', ''OBIDebugModule'']"
  by code_simp

lemma called_minerva:
  "concat (map (calls []) (lines_of cpuCode_minerva)) = [''Minerva'']"
  by code_simp

lemma called_qspi:
  "concat (map (calls []) (tl (lines_of memoryCode_qspi))) = [''QSPIFlash'', ''connect'', ''flipped'']"
  by code_simp

lemma called_sram:
  "concat (map (calls []) (tl (lines_of memoryCode_sram))) = [''WishboneSRAM'']"
  by code_simp

lemma called_memoryMap_head: "concat (map (calls []) (lines_of memoryMap_head)) = []"
  by code_simp

lemma called_memoryMap_spiflash: "concat (map (calls []) (tl (lines_of memoryMap_spiflash))) = []"
  by code_simp

lemma called_memoryMap_periph: "concat (map (calls []) (tl (lines_of memoryMap_periph))) = []"
  by code_simp

lemma called_memoryMap_spi: "concat (map (calls []) (tl (lines_of memoryMap_spi))) = []"
  by code_simp

lemma called_memoryMap_i2c: "concat (map (calls []) (tl (lines_of memoryMap_i2c))) = []"
  by code_simp

lemma called_memoryMap_tail: "concat (map (calls []) (tl (lines_of memoryMap_tail))) = []"
  by code_simp

lemma calls_no_paren: "CHR ''('' \<notin> set x \<Longrightarrow> calls acc (x @ rest) = calls (rev x @ acc) rest"
  by (induction x arbitrary: acc) auto

lemma calls_none: "CHR ''('' \<notin> set x \<Longrightarrow> calls acc x = []"
  by (induction x arbitrary: acc) auto

lemma toString_no_paren: "CHR ''('' \<notin> set (toString n)"
  using toString_digits[of n] by auto

lemma calls_toString [simp]:
  "calls acc (toString n @ rest) = calls (rev (toString n) @ acc) rest"
  "calls acc (toString n) = []"
  by (simp_all add: calls_no_paren calls_none toString_no_paren)

lemma called_gpio_lines:
  "concat (map (calls []) (ioCode_gpio_lines i w)) = [''GPIOPeripheral'', ''connect'', ''flipped'']"
  by (simp add: ioCode_gpio_lines_def callee_def ident_char_def)

lemma called_uart_lines:
  "concat (map (calls []) (ioCode_uart_lines i)) = [''UARTPeripheral'', ''int'', ''connect'', ''flipped'']"
  by (simp add: ioCode_uart_lines_def callee_def ident_char_def)

lemma called_spi_lines:
  "concat (map (calls []) (ioCode_spi_lines i)) = [''SPIPeripheral'', ''connect'', ''flipped'']"
  by (simp add: ioCode_spi_lines_def callee_def ident_char_def)

lemma called_i2c_lines:
  "concat (map (calls []) (ioCode_i2c_lines i)) = [''I2CPeripheral'', ''connect'', ''flipped'']"
  by (simp add: ioCode_i2c_lines_def callee_def ident_char_def)

lemma split_at_none: "\<forall>c \<in> set x. \<not> P c \<Longrightarrow> split_at P x = [x]"
  by (induction x) (auto split: list.splits)

lemma strip_left_clean: "clean_name x \<Longrightarrow> strip_left x = x"
  by (cases x) (auto simp: clean_name_def strip_left_def)

lemma split_names:
  "xs \<noteq> [] \<Longrightarrow> \<forall>x \<in> set xs. clean_name x \<Longrightarrow>
     map strip_left (split_at (\<lambda>c. c = CHR '','') (join '', '' xs)) = xs"
proof (induction xs rule: induct_list012)
  case 1
  then show ?case by simp
next
  case (2 x)
  then have "split_at (\<lambda>c. c = CHR '','') x = [x]"
    by (intro split_at_none) (auto simp: clean_name_def)
  then show ?case using 2 by (simp add: strip_left_clean)
next
  case (3 x y zs)
  have x: "split_at (\<lambda>c. c = CHR '','') x = [x]"
    using 3(4) by (intro split_at_none) (auto simp: clean_name_def)
  obtain l ls where l: "split_at (\<lambda>c. c = CHR '','') (join '', '' (y # zs)) = l # ls"
    using split_at_nonempty[of _ "join '', '' (y # zs)"] by (meson list.exhaust)
  have ih: "map strip_left (l # ls) = y # zs" using 3(2) 3(4) l by simp
  have "join '', '' (x # y # zs) = x @ CHR '','' # CHR '' '' # join '', '' (y # zs)" by simp
  then have "split_at (\<lambda>c. c = CHR '','') (join '', '' (x # y # zs)) =
      x # (CHR '' '' # l) # ls"
    using split_at_append_sep[of "\<lambda>c. c = CHR '',''" "CHR '',''" x "CHR '' '' # join '', '' (y # zs)"]
    by (simp add: x l)
  moreover have "strip_left (CHR '' '' # l) = strip_left l" by (simp add: strip_left_def)
  ultimately show ?case using ih 3(4) by (simp add: strip_left_clean)
qed

lemma import_names_io:
  "xs \<noteq> [] \<Longrightarrow> \<forall>x \<in> set xs. clean_name x \<Longrightarrow>
     import_names (''from chipflow_digital_ip.io import '' @ join '', '' xs) = xs"
  using split_names[of xs] by (simp add: import_names_def strip_left_def)

lemma import_names_platforms:
  "xs \<noteq> [] \<Longrightarrow> \<forall>x \<in> set xs. clean_name x \<Longrightarrow>
     import_names (''from chipflow_lib.platforms import '' @ join '', '' xs) = xs"
  using split_names[of xs] by (simp add: import_names_def strip_left_def)

lemma import_names_fixed:
  "concat (map import_names seed_imports) =
     [''Path'', ''Module'', ''wiring'', ''Out'', ''flipped'', ''connect'', ''csr'', ''wishbone'',
      ''WishboneCSRBridge'', ''SoCID'']"
  "import_names ''from chipflow_digital_ip.memory import QSPIFlash'' = [''QSPIFlash'']"
  "import_names ''from chipflow_digital_ip.memory import HyperRAM'' = [''HyperRAM'']"
  "import_names ''from amaranth_soc.wishbone.sram import WishboneSRAM'' = [''WishboneSRAM'']"
  "import_names ''from chipflow_digital_ip.processors import CV32E40P, OBIDebugModule'' =
     [''CV32E40P'', ''OBIDebugModule'']"
  "import_names ''from minerva.core import Minerva'' = [''Minerva'']"
  "import_names ''from amaranth.back import verilog'' = [''verilog'']"
  by code_simp+

lemma ioImports_clean: "\<forall>x \<in> set (ioImports d). clean_name x"
  by (auto simp: ioImports_def clean_name_def)

lemma platformImports_clean: "\<forall>x \<in> set (platformImports d). clean_name x"
  by (auto simp: platformImports_def clean_name_def)

lemma platformImports_nonempty: "platformImports d \<noteq> []"
  by (simp add: platformImports_def)

lemma set_new_Set: "set (new_Set xs) = set xs"
  by (simp add: new_Set_def set_foldl_set_add)

lemma imports_set_set:
  "set (imports_set d) =
     set seed_imports \<union>
     (if some_includes (memory d) ''qspi''
      then {''from chipflow_digital_ip.memory import QSPIFlash''} else {}) \<union>
     (if some_includes (memory d) ''hyperram''
      then {''from chipflow_digital_ip.memory import HyperRAM''} else {}) \<union>
     (if some_includes (memory d) ''sram'' \<or> memory d = []
      then {''from amaranth_soc.wishbone.sram import WishboneSRAM''} else {}) \<union>
     (if ioImports d \<noteq> []
      then {''from chipflow_digital_ip.io import '' @ join '', '' (ioImports d)} else {}) \<union>
     (if cpu_includes (cpu d) ''cv32e40p''
      then {''from chipflow_digital_ip.processors import CV32E40P, OBIDebugModule''}
      else if cpu_includes (cpu d) ''minerva'' then {''from minerva.core import Minerva''} else {}) \<union>
     {''from chipflow_lib.platforms import '' @ join '', '' (platformImports d)}"
  unfolding imports_set_def platform_imports_def processor_imports_def io_imports_def
    memory_imports_def Let_def
  by (simp add: set_set_add set_new_Set Un_commute Un_left_commute insert_commute)

lemma import_names_Nil: "import_names [] = []"
  by (simp add: import_names_def strip_left_def)

lemma imported_from_set:
  assumes "s \<in> set (imports_set d)" and "x \<in> set (import_names s)"
  shows "x \<in> set (imported_names (generateDesignPy d))"
proof -
  have "s \<noteq> []" using assms(2) by (auto simp: import_names_Nil)
  then have "s \<in> set (import_statements (generateDesignPy d))"
    using assms(1) by (simp add: import_statements_artifact)
  then show ?thesis using assms(2) unfolding imported_names_def by auto
qed

lemma imported_seed:
  assumes "x \<in> set [''Path'', ''Module'', ''wiring'', ''Out'', ''flipped'', ''connect'', ''csr'',
      ''wishbone'', ''WishboneCSRBridge'', ''SoCID'']"
  shows "x \<in> set (imported_names (generateDesignPy d))"
proof -
  from assms have "x \<in> set (concat (map import_names seed_imports))"
    unfolding import_names_fixed(1) .
  then obtain s where "s \<in> set seed_imports" and "x \<in> set (import_names s)" by auto
  then show ?thesis using imported_from_set[of s d x] by (simp add: imports_set_set)
qed

lemma imported_platform:
  "x \<in> set (platformImports d) \<Longrightarrow> x \<in> set (imported_names (generateDesignPy d))"
  using imported_from_set[of "''from chipflow_lib.platforms import '' @ join '', '' (platformImports d)" d x]
    import_names_platforms[OF platformImports_nonempty platformImports_clean, of d]
  by (simp add: imports_set_set)

lemma imported_io:
  "x \<in> set (ioImports d) \<Longrightarrow> x \<in> set (imported_names (generateDesignPy d))"
proof -
  assume x: "x \<in> set (ioImports d)"
  then have n: "ioImports d \<noteq> []" by auto
  show ?thesis
    using imported_from_set[of "''from chipflow_digital_ip.io import '' @ join '', '' (ioImports d)" d x]
      import_names_io[OF n ioImports_clean] x n
    by (simp add: imports_set_set)
qed

lemma imported_cv32e40p:
  assumes "cpu_includes (cpu d) ''cv32e40p''" and "x \<in> set [''CV32E40P'', ''OBIDebugModule'']"
  shows "x \<in> set (imported_names (generateDesignPy d))"
  using imported_from_set[of "''from chipflow_digital_ip.processors import CV32E40P, OBIDebugModule''" d x]
    assms unfolding import_names_fixed by (simp add: imports_set_set)

lemma imported_minerva:
  assumes "\<not> cpu_includes (cpu d) ''cv32e40p''" and "cpu_includes (cpu d) ''minerva''"
  shows "''Minerva'' \<in> set (imported_names (generateDesignPy d))"
  using imported_from_set[of "''from minerva.core import Minerva''" d "''Minerva''"]
    assms unfolding import_names_fixed by (simp add: imports_set_set)

lemma imported_qspi:
  assumes "some_includes (memory d) ''qspi''"
  shows "''QSPIFlash'' \<in> set (imported_names (generateDesignPy d))"
  using imported_from_set[of "''from chipflow_digital_ip.memory import QSPIFlash''" d "''QSPIFlash''"]
    assms unfolding import_names_fixed by (simp add: imports_set_set)

lemma imported_sram: "''WishboneSRAM'' \<in> set (imported_names (generateDesignPy d))"
  unfolding imported_names_def import_statements_artifact
  by (simp add: import_names_fixed)

lemma called_lines_simps:
  "called_lines [] = []" "called_lines (l # ls) = calls [] l @ called_lines ls"
  "called_lines (xs @ ys) = called_lines xs @ called_lines ys"
  "called_lines (concat xss) = concat (map called_lines xss)"
  by (induction xss) (simp_all add: called_lines_def)

lemma join_no_paren:
  "CHR ''('' \<notin> set sep \<Longrightarrow> \<forall>x \<in> set xs. CHR ''('' \<notin> set x \<Longrightarrow> CHR ''('' \<notin> set (join sep xs)"
  using set_join[of sep xs] by auto

lemma ioImports_no_paren: "\<forall>x \<in> set (ioImports d). CHR ''('' \<notin> set x"
  by (auto simp: ioImports_def)

lemma platformImports_no_paren: "\<forall>x \<in> set (platformImports d). CHR ''('' \<notin> set x"
  by (auto simp: platformImports_def)

lemma seed_no_paren: "\<forall>l \<in> set seed_imports. CHR ''('' \<notin> set l"
  by (simp add: seed_imports_def)

lemma imports_no_paren: "l \<in> set (imports_set d) \<Longrightarrow> CHR ''('' \<notin> set l"
  using seed_no_paren join_no_paren[OF _ ioImports_no_paren, of "'', ''" d]
    join_no_paren[OF _ platformImports_no_paren, of "'', ''" d]
  unfolding imports_set_set by (auto split: if_splits)

lemma called_imports: "called_lines (lines_of (join ''\<newline>'' (imports_set d))) = []"
proof -
  have "lines_of (join ''\<newline>'' (imports_set d)) = imports_set d"
    using imports_nonempty imports_shape by (intro lines_of_join) (auto simp: import_shape_def)
  moreover have "\<forall>l \<in> set ls. CHR ''('' \<notin> set l \<Longrightarrow> called_lines ls = []" for ls
    by (induction ls) (simp_all add: called_lines_simps calls_none)
  ultimately show ?thesis using imports_no_paren by simp
qed

lemma calls_iface:
  "calls [] (''            '' @ iface_gpio i w) = [''Out'', ''GPIOSignature'']"
  "calls [] (''            '' @ iface_gpio i w @ '','') = [''Out'', ''GPIOSignature'']"
  "calls [] (''            '' @ iface_uart i) = [''Out'', ''UARTSignature'']"
  "calls [] (''            '' @ iface_uart i @ '','') = [''Out'', ''UARTSignature'']"
  "calls [] (''            '' @ iface_spi i) = [''Out'', ''SPISignature'']"
  "calls [] (''            '' @ iface_spi i @ '','') = [''Out'', ''SPISignature'']"
  "calls [] (''            '' @ iface_i2c i) = [''Out'', ''I2CSignature'']"
  "calls [] (''            '' @ iface_i2c i @ '','') = [''Out'', ''I2CSignature'']"
  by (simp_all add: iface_gpio_def iface_uart_def iface_spi_def iface_i2c_def callee_def
      ident_char_def)

lemma calls_fixed_ifaces:
  \<open>calls [] (''            '' @ ''"flash": Out(QSPIFlashSignature())'') = [''Out'', ''QSPIFlashSignature'']\<close>
  \<open>calls [] (''            '' @ ''"flash": Out(QSPIFlashSignature())'' @ '','') = [''Out'', ''QSPIFlashSignature'']\<close>
  \<open>calls [] (''            '' @ ''"cpu_jtag": Out(JTAGSignature())'') = [''Out'', ''JTAGSignature'']\<close>
  \<open>calls [] (''            '' @ ''"cpu_jtag": Out(JTAGSignature())'' @ '','') = [''Out'', ''JTAGSignature'']\<close>
  by code_simp+

lemma platform_signatures:
  "some_includes (io d) ''gpio'' \<Longrightarrow> ''GPIOSignature'' \<in> set (platformImports d)"
  "some_includes (io d) ''uart'' \<Longrightarrow> ''UARTSignature'' \<in> set (platformImports d)"
  "some_includes (io d) ''spi'' \<Longrightarrow> ''SPISignature'' \<in> set (platformImports d)"
  "some_includes (io d) ''i2c'' \<Longrightarrow> ''I2CSignature'' \<in> set (platformImports d)"
  "some_includes (memory d) ''qspi'' \<Longrightarrow> ''QSPIFlashSignature'' \<in> set (platformImports d)"
  "cpu_includes (cpu d) ''cv32e40p'' \<Longrightarrow> ''JTAGSignature'' \<in> set (platformImports d)"
  "''attach_data'' \<in> set (platformImports d)"
  "''SoftwareBuild'' \<in> set (platformImports d)"
  by (simp_all add: platformImports_def)

lemma iface_calls_fixed:
  \<open>some_includes (memory d) ''qspi'' \<Longrightarrow> iface_calls d ''"flash": Out(QSPIFlashSignature())''\<close>
  \<open>cpu_includes (cpu d) ''cv32e40p'' \<Longrightarrow> iface_calls d ''"cpu_jtag": Out(JTAGSignature())''\<close>
  unfolding iface_calls_def calls_fixed_ifaces by (simp_all add: platform_signatures)

lemma fixed_interfaces_calls: "\<forall>l \<in> set (fixed_interfaces d). iface_calls d l"
proof (cases "some_includes (memory d) ''qspi''"; cases "cpu_includes (cpu d) ''cv32e40p''")
qed (simp_all add: fixed_interfaces_def iface_calls_fixed)

lemma iface_calls_kinds:
  "some_includes (io d) ''gpio'' \<Longrightarrow> iface_calls d (iface_gpio i w)"
  "some_includes (io d) ''uart'' \<Longrightarrow> iface_calls d (iface_uart i)"
  "some_includes (io d) ''spi'' \<Longrightarrow> iface_calls d (iface_spi i)"
  "some_includes (io d) ''i2c'' \<Longrightarrow> iface_calls d (iface_i2c i)"
  unfolding iface_calls_def calls_iface by (simp_all add: platform_signatures)

lemma add_io_interfaces_calls:
  assumes "b \<in> set (io d)" and "\<forall>l \<in> set acc. iface_calls d l"
  shows "\<forall>l \<in> set (add_io_interfaces acc b). iface_calls d l"
proof -
  have k: "includes_str (block_id b) kw \<Longrightarrow> some_includes (io d) kw" for kw
    using assms(1) by (auto simp: some_includes_iff)
  show ?thesis
  proof (cases "includes_str (block_id b) ''gpio''")
    case True
    then show ?thesis using assms(2) iface_calls_kinds(1)[OF k[OF True]]
      by (simp add: add_io_interfaces_def Let_def ball_Un)
  next
    case g: False
    show ?thesis
    proof (cases "includes_str (block_id b) ''uart''")
      case True
      then show ?thesis using g assms(2) iface_calls_kinds(2)[OF k[OF True]]
        by (simp add: add_io_interfaces_def Let_def ball_Un)
    next
      case u: False
      show ?thesis
      proof (cases "includes_str (block_id b) ''spi''")
        case True
        then show ?thesis using g u assms(2) iface_calls_kinds(3)[OF k[OF True]]
          by (simp add: add_io_interfaces_def Let_def ball_Un)
      next
        case s: False
        show ?thesis
        proof (cases "includes_str (block_id b) ''i2c''")
          case True
          then show ?thesis using g u s assms(2) iface_calls_kinds(4)[OF k[OF True]]
            by (simp add: add_io_interfaces_def Let_def ball_Un)
        next
          case False
          then show ?thesis using g u s assms(2) by (simp add: add_io_interfaces_def)
        qed
      qed
    qed
  qed
qed

lemma foldl_add_io_interfaces_calls:
  "set bs \<subseteq> set (io d) \<Longrightarrow> \<forall>l \<in> set acc. iface_calls d l \<Longrightarrow>
     \<forall>l \<in> set (foldl add_io_interfaces acc bs). iface_calls d l"
proof (induction bs arbitrary: acc)
  case Nil
  then show ?case by simp
next
  case (Cons b bs)
  have "\<forall>l \<in> set (add_io_interfaces acc b). iface_calls d l"
    using Cons.prems by (intro add_io_interfaces_calls) simp_all
  then have "\<forall>l \<in> set (foldl add_io_interfaces (add_io_interfaces acc b) bs). iface_calls d l"
    using Cons.prems by (intro Cons.IH) simp_all
  then show ?case by simp
qed

lemma interfaces_calls: "\<forall>l \<in> set (interfaces d). iface_calls d l"
  unfolding interfaces_def
  by (rule foldl_add_io_interfaces_calls) (simp_all add: fixed_interfaces_calls)

lemma called_interfaces_aux:
  "\<forall>l \<in> set ls. iface_shape l \<and> iface_calls d l \<Longrightarrow>
     set (called_lines
       (lines_of (join '',\<newline>'' (map (\<lambda>iface. ''            '' @ iface) ls)))) \<subseteq>
     insert ''Out'' (set (platformImports d))"
proof (induction ls rule: induct_list012)
  case 1
  then show ?case by (simp add: lines_of_Nil called_lines_simps)
next
  case (2 x)
  then have "CHR 0x0A \<notin> set (''            '' @ x)" by (simp add: iface_shape_def)
  then have "lines_of (''            '' @ x) = [''            '' @ x]" by (rule lines_of_nlfree)
  then show ?case using 2 by (simp add: called_lines_simps iface_calls_def del: append.simps)
next
  case (3 x y zs)
  have n: "CHR 0x0A \<notin> set (''            '' @ x @ '','')" using 3(3) by (simp add: iface_shape_def)
  have "join '',\<newline>'' (map (\<lambda>iface. ''            '' @ iface) (x # y # zs)) =
      (''            '' @ x @ '','') @ CHR 0x0A # join '',\<newline>'' (map (\<lambda>iface. ''            '' @ iface) (y # zs))"
    by simp
  then have "lines_of (join '',\<newline>'' (map (\<lambda>iface. ''            '' @ iface) (x # y # zs))) =
      (''            '' @ x @ '','') # lines_of (join '',\<newline>'' (map (\<lambda>iface. ''            '' @ iface) (y # zs)))"
    using lines_of_line[OF n] by simp
  then show ?case using 3
    by (simp add: called_lines_simps iface_calls_def del: append.simps join.simps)
qed

lemma called_interfaces:
  "set (called_lines
     (lines_of (join '',\<newline>'' (map (\<lambda>iface. ''            '' @ iface) (interfaces d))))) \<subseteq>
   insert ''Out'' (set (platformImports d))"
  using interfaces_shape interfaces_calls by (intro called_interfaces_aux) simp

lemma called_enumerate:
  assumes "\<And>i b. called_lines (f i b) = ns"
  shows "set (called_lines (concat (map (\<lambda>(i, b). f i b) (enumerate 0 bs)))) =
         (if bs = [] then {} else set ns)"
proof -
  have "set (called_lines (concat (map (\<lambda>(i, b). f i b) xs))) = (if xs = [] then {} else set ns)" for xs
    by (induction xs) (auto simp: called_lines_simps assms)
  from this[of "enumerate 0 bs"] show ?thesis by (simp add: enumerate_eq_zip)
qed

lemma called_upt:
  assumes "\<And>i. called_lines (f i) = ns"
  shows "set (called_lines (concat (map f [0..<n]))) = (if n = 0 then {} else set ns)"
proof -
  have "set (called_lines (concat (map f xs))) = (if xs = [] then {} else set ns)" for xs
    by (induction xs) (auto simp: called_lines_simps assms)
  from this[of "[0..<n]"] show ?thesis by simp
qed

lemma called_io_lines:
  "set (called_lines (io_lines d)) =
     (if gpioBlocks d = [] then {} else set [''GPIOPeripheral'', ''connect'', ''flipped'']) \<union>
     (if uartBlocks d = [] then {} else set [''UARTPeripheral'', ''int'', ''connect'', ''flipped'']) \<union>
     (if spi_total (spiBlocks d) = 0 then {} else set [''SPIPeripheral'', ''connect'', ''flipped'']) \<union>
     (if i2cBlocks d = [] then {} else set [''I2CPeripheral'', ''connect'', ''flipped''])"
proof -
  have g: "set (called_lines (concat (map (\<lambda>(i, b). ioCode_gpio_lines i (or_default (bitSize b) 8))
        (enumerate 0 (gpioBlocks d))))) =
      (if gpioBlocks d = [] then {} else set [''GPIOPeripheral'', ''connect'', ''flipped''])"
    by (rule called_enumerate) (simp add: called_lines_def called_gpio_lines)
  have u: "set (called_lines (concat (map (\<lambda>(i, b). ioCode_uart_lines i)
        (enumerate 0 (uartBlocks d))))) =
      (if uartBlocks d = [] then {} else set [''UARTPeripheral'', ''int'', ''connect'', ''flipped''])"
    by (rule called_enumerate) (simp add: called_lines_def called_uart_lines)
  have s: "set (called_lines (concat (map ioCode_spi_lines [0..<spi_total (spiBlocks d)]))) =
      (if spi_total (spiBlocks d) = 0 then {} else set [''SPIPeripheral'', ''connect'', ''flipped''])"
    by (rule called_upt) (simp add: called_lines_def called_spi_lines)
  have t: "set (called_lines (concat (map (\<lambda>(i, b). ioCode_i2c_lines i)
        (enumerate 0 (i2cBlocks d))))) =
      (if i2cBlocks d = [] then {} else set [''I2CPeripheral'', ''connect'', ''flipped''])"
    by (rule called_enumerate) (simp add: called_lines_def called_i2c_lines)
  show ?thesis
    unfolding io_lines_def called_lines_simps(3) set_append g u s t by (simp only: Un_assoc)
qed

lemma io_kinds_present:
  "gpioBlocks d \<noteq> [] \<Longrightarrow> some_includes (io d) ''gpio''"
  "uartBlocks d \<noteq> [] \<Longrightarrow> some_includes (io d) ''uart''"
  "spi_total (spiBlocks d) \<noteq> 0 \<Longrightarrow> some_includes (io d) ''spi''"
  "i2cBlocks d \<noteq> [] \<Longrightarrow> some_includes (io d) ''i2c''"
  by (auto simp: gpioBlocks_def uartBlocks_def spiBlocks_def i2cBlocks_def some_includes_iff
      filter_empty_conv spi_total_def)

lemma io_peripherals:
  "some_includes (io d) ''gpio'' \<Longrightarrow> ''GPIOPeripheral'' \<in> set (ioImports d)"
  "some_includes (io d) ''uart'' \<Longrightarrow> ''UARTPeripheral'' \<in> set (ioImports d)"
  "some_includes (io d) ''spi'' \<Longrightarrow> ''SPIPeripheral'' \<in> set (ioImports d)"
  "some_includes (io d) ''i2c'' \<Longrightarrow> ''I2CPeripheral'' \<in> set (ioImports d)"
  by (simp_all add: ioImports_def)

lemma allowed_io: "set (called_lines (lines_of (ioCode d))) \<subseteq> allowed_names d"
proof -
  have c: "''connect'' \<in> allowed_names d" "''flipped'' \<in> allowed_names d"
    using imported_seed[of "''connect''" d] imported_seed[of "''flipped''" d]
    by (simp_all add: allowed_names_def)
  have i: "''int'' \<in> allowed_names d" by (simp add: allowed_names_def builtin_names_def)
  have g: "gpioBlocks d \<noteq> [] \<Longrightarrow> ''GPIOPeripheral'' \<in> allowed_names d"
    using imported_io[OF io_peripherals(1)[OF io_kinds_present(1)]] by (simp add: allowed_names_def)
  have u: "uartBlocks d \<noteq> [] \<Longrightarrow> ''UARTPeripheral'' \<in> allowed_names d"
    using imported_io[OF io_peripherals(2)[OF io_kinds_present(2)]] by (simp add: allowed_names_def)
  have s: "spi_total (spiBlocks d) \<noteq> 0 \<Longrightarrow> ''SPIPeripheral'' \<in> allowed_names d"
    using imported_io[OF io_peripherals(3)[OF io_kinds_present(3)]] by (simp add: allowed_names_def)
  have t: "i2cBlocks d \<noteq> [] \<Longrightarrow> ''I2CPeripheral'' \<in> allowed_names d"
    using imported_io[OF io_peripherals(4)[OF io_kinds_present(4)]] by (simp add: allowed_names_def)
  have "set (called_lines (io_lines d)) \<subseteq> allowed_names d"
    unfolding called_io_lines using c i g u s t by (simp del: One_nat_def)
  then show ?thesis by (simp add: lines_of_ioCode called_lines_simps)
qed

lemma called_names_lines: "called_names text = called_lines (lines_of text)"
  by (simp add: called_names_def called_lines_def)

lemma allowed_fixed:
  "''MySoC'' \<in> allowed_names d" "''__init__'' \<in> allowed_names d" "''elaborate'' \<in> allowed_names d"
  "''super'' \<in> allowed_names d" "''open'' \<in> allowed_names d" "''int'' \<in> allowed_names d"
  "''Module'' \<in> allowed_names d" "''connect'' \<in> allowed_names d" "''flipped'' \<in> allowed_names d"
  "''Out'' \<in> allowed_names d" "''SoCID'' \<in> allowed_names d"
  "''WishboneCSRBridge'' \<in> allowed_names d" "''Path'' \<in> allowed_names d"
  "''SoftwareBuild'' \<in> allowed_names d" "''attach_data'' \<in> allowed_names d"
  "''WishboneSRAM'' \<in> allowed_names d"
  using imported_seed[of "''Module''" d] imported_seed[of "''connect''" d]
    imported_seed[of "''flipped''" d] imported_seed[of "''Out''" d] imported_seed[of "''SoCID''" d]
    imported_seed[of "''WishboneCSRBridge''" d] imported_seed[of "''Path''" d]
    imported_platform[OF platform_signatures(7), of d] imported_platform[OF platform_signatures(8), of d]
    imported_sram[of d]
  by (simp_all add: allowed_names_def builtin_names_def own_names_def)

lemma allowed_platform: "x \<in> set (platformImports d) \<Longrightarrow> x \<in> allowed_names d"
  using imported_platform[of x d] by (simp add: allowed_names_def)

lemma allowed_interfaces:
  "set (called_lines
     (lines_of (join '',\<newline>'' (map (\<lambda>iface. ''            '' @ iface) (interfaces d))))) \<subseteq>
   allowed_names d"
  using called_interfaces[of d] allowed_platform[of _ d] allowed_fixed(10)[of d] by blast

lemmas called_fixed =
  called_class_open[folded called_lines_def] called_class_close[folded called_lines_def]
  called_elaborate_open[folded called_lines_def] called_soc_id[folded called_lines_def]
  called_attach_data[folded called_lines_def] called_main[folded called_lines_def]
  called_cv32e40p[folded called_lines_def] called_minerva[folded called_lines_def]
  called_qspi[folded called_lines_def] called_sram[folded called_lines_def]
  called_memoryMap_head[folded called_lines_def] called_memoryMap_spiflash[folded called_lines_def]
  called_memoryMap_periph[folded called_lines_def] called_memoryMap_spi[folded called_lines_def]
  called_memoryMap_i2c[folded called_lines_def] called_memoryMap_tail[folded called_lines_def]

lemma allowed_memoryMap: "called_lines (lines_of (memoryMap d)) = []"
  unfolding lines_of_memoryMap called_lines_simps(3)
  by (simp add: called_fixed called_lines_simps(1))

lemma allowed_cpu: "set (called_lines (lines_of (cpuCode d))) \<subseteq> allowed_names d"
proof -
  have 1: "cpu_includes (cpu d) ''cv32e40p'' \<Longrightarrow>
      ''CV32E40P'' \<in> allowed_names d \<and> ''OBIDebugModule'' \<in> allowed_names d"
    using imported_cv32e40p[of d "''CV32E40P''"] imported_cv32e40p[of d "''OBIDebugModule''"]
    by (simp add: allowed_names_def)
  have 2: "\<not> cpu_includes (cpu d) ''cv32e40p'' \<Longrightarrow> cpu_includes (cpu d) ''minerva'' \<Longrightarrow>
      ''Minerva'' \<in> allowed_names d"
    using imported_minerva[of d] by (simp add: allowed_names_def)
  show ?thesis unfolding lines_of_cpuCode using 1 2
    by (simp add: called_fixed called_lines_simps(1,2))
qed

lemma allowed_memory: "set (called_lines (lines_of (memoryCode d))) \<subseteq> allowed_names d"
proof -
  have 1: "some_includes (memory d) ''qspi'' \<Longrightarrow> ''QSPIFlash'' \<in> allowed_names d"
    using imported_qspi[of d] by (simp add: allowed_names_def)
  show ?thesis unfolding lines_of_memoryCode using 1 allowed_fixed[of d]
    by (simp add: called_lines_simps called_fixed)
qed

lemma allowed_artifact: "set (called_names (generateDesignPy d)) \<subseteq> allowed_names d"
proof -
  have a: "set (called_lines (tl (butlast (lines_of designPy_class_open)))) \<subseteq> allowed_names d"
    using allowed_fixed[of d] by (simp add: called_fixed)
  have b: "called_lines (tl (butlast (lines_of designPy_class_close))) = []"
    by (simp add: called_fixed)
  have c: "set (called_lines (tl (butlast (lines_of designPy_elaborate_open)))) \<subseteq> allowed_names d"
    using allowed_fixed[of d] by (simp add: called_fixed)
  have e: "set (called_lines (tl (lines_of designPy_soc_id))) \<subseteq> allowed_names d"
    using allowed_fixed[of d] by (simp add: called_fixed)
  have f: "set (called_lines (if some_includes (memory d) ''qspi''
      then tl (lines_of designPy_attach_data) else [])) \<subseteq> allowed_names d"
    using allowed_fixed[of d] by (simp add: called_fixed called_lines_simps(1))
  have g: "set (called_lines (tl (lines_of designPy_main))) \<subseteq> allowed_names d"
    using allowed_fixed[of d] by (simp add: called_fixed)
  have i: "set (called_lines (lines_of (join ''\<newline>'' (imports_set d)))) = {}"
    by (simp add: called_imports)
  have m: "set (called_lines (lines_of (memoryMap d))) = {}"
    by (simp add: allowed_memoryMap)
  have b': "set (called_lines (tl (butlast (lines_of designPy_class_close)))) = {}"
    by (simp add: b)
  show ?thesis
    unfolding called_names_lines artifact_lines called_lines_simps(3) set_append
    by (simp only: a b' c e f g i m allowed_interfaces allowed_cpu allowed_memory allowed_io
        Un_subset_iff empty_subsetI simp_thms)
qed

lemma count_list_app: "count_list (xs @ ys) s = count_list xs s + count_list ys s"
  by (induction xs) simp_all

lemma count_list_distinct: "distinct xs \<Longrightarrow> count_list xs s = (if s \<in> set xs then 1 else 0)"
  by (induction xs) auto

lemma verilog_not_in_set: "''from amaranth.back import verilog'' \<notin> set (imports_set d)"
  unfolding imports_set_set by (simp add: seed_imports_def)

lemma sram_in_set:
  "sram_import \<in> set (imports_set d) \<longleftrightarrow> some_includes (memory d) ''sram'' \<or> memory d = []"
  unfolding imports_set_set sram_import_def by (simp add: seed_imports_def)

lemma count_import_statements:
  "count_list (import_statements (generateDesignPy d)) s =
     (if s \<noteq> [] \<and> s \<in> set (imports_set d) then 1 else 0) +
     (if s = sram_import then 1 else 0) +
     (if s = ''from amaranth.back import verilog'' then 1 else 0)"
proof -
  have "distinct (filter (\<lambda>l. l \<noteq> []) (imports_set d))"
    using distinct_imports by simp
  then have "count_list (filter (\<lambda>l. l \<noteq> []) (imports_set d)) s =
      (if s \<noteq> [] \<and> s \<in> set (imports_set d) then 1 else 0)"
    by (simp add: count_list_distinct)
  then show ?thesis
    unfolding import_statements_artifact count_list_app sram_import_def by simp
qed

lemma imports_doc_full:
  "imports_set doc_full =
     [''from pathlib import Path'', '''', ''from amaranth import Module'',
      ''from amaranth.lib import wiring'', ''from amaranth.lib.wiring import Out, flipped, connect'',
      ''from amaranth_soc import csr, wishbone'',
      ''from amaranth_soc.csr.wishbone import WishboneCSRBridge'',
      ''from chipflow_digital_ip.base import SoCID'',
      ''from chipflow_digital_ip.memory import QSPIFlash'',
      ''from chipflow_digital_ip.io import GPIOPeripheral, UARTPeripheral, SPIPeripheral'',
      ''from chipflow_digital_ip.processors import CV32E40P, OBIDebugModule'',
      ''from chipflow_lib.platforms import attach_data, SoftwareBuild, GPIOSignature, UARTSignature, SPISignature, QSPIFlashSignature, JTAGSignature'']"
  by code_simp

section \<open>Properties of the generator\<close>

text \<open>
  C1 (IO blocks expand by \<open>count\<close>), evaluated on the document
  \<^verbatim>\<open>{enabledBlocks: [{id: "gpio_block", type: "digital", count: 2, bitSize: 4}]}\<close>.
  The artifact declares two GPIO interfaces, \<^verbatim>\<open>gpio_0\<close> and \<^verbatim>\<open>gpio_1\<close>, and registers
  one GPIO instance, \<^verbatim>\<open>gpio_0\<close>: the loop that declares interfaces runs \<open>count\<close>
  times per block, the loop that instantiates GPIO (and UART and I2C) peripherals runs
  once per block, and only the SPI loop runs \<open>count\<close> times. The claim asks for two
  instantiation fragments here.
\<close>

theorem C1_gpio_count_two:
  \<open>interface_decls (generateDesignPy doc_gpio2) =
     [''"gpio_0": Out(GPIOSignature(pin_count=4))'', ''"gpio_1": Out(GPIOSignature(pin_count=4))''] \<and>
   submodules (generateDesignPy doc_gpio2) =
     [''wb_arbiter'', ''wb_decoder'', ''csr_decoder'', ''sram'', ''gpio_0'', ''soc_id'', ''wb_to_csr'']\<close>
  unfolding interface_decls_artifact submodules_artifact by code_simp

text \<open>
  C2 (each import statement exactly once) fails as stated. In the artifact of the document
  that has no block list, the statement
  \<^verbatim>\<open>from amaranth_soc.wishbone.sram import WishboneSRAM\<close> appears twice: once in the import
  section, which adds it when the memory category is empty or holds an SRAM block, and once
  inside the SRAM instantiation fragment, which is always emitted and carries the import
  inline.
\<close>

theorem C2_counterexample:
  "count_list (import_statements (generateDesignPy doc_absent))
     ''from amaranth_soc.wishbone.sram import WishboneSRAM'' = 2"
proof -
  have "memory doc_absent = []" by code_simp
  then have "sram_import \<in> set (imports_set doc_absent)" by (simp add: sram_in_set)
  then show ?thesis
    using count_import_statements[of doc_absent sram_import] by (simp add: sram_import_def)
qed

text \<open>
  C2 as amended. For every document: every name that a line of the artifact calls, in the
  instantiation fragments as in the rest of the text, is imported by an import statement
  of the artifact, or is a Python builtin, or is defined by the artifact itself; the import
  section holds no statement twice; the WishboneSRAM import appears twice in the artifact
  when the memory category is empty or holds a block with \<open>sram\<close> in its id, and once
  otherwise; every other import statement appears at most once in the artifact.
\<close>

theorem C2_imports_cover_calls:
  "set (called_names (generateDesignPy d)) \<subseteq>
     set (imported_names (generateDesignPy d)) \<union> set builtin_names \<union> set own_names \<and>
   distinct (imports_set d) \<and>
   count_list (import_statements (generateDesignPy d)) sram_import =
     (if some_includes (memory d) ''sram'' \<or> memory d = [] then 2 else 1) \<and>
   (s \<noteq> sram_import \<longrightarrow> count_list (import_statements (generateDesignPy d)) s \<le> 1)"
proof (intro conjI impI)
  show "set (called_names (generateDesignPy d)) \<subseteq>
      set (imported_names (generateDesignPy d)) \<union> set builtin_names \<union> set own_names"
    using allowed_artifact[of d] by (simp add: allowed_names_def)
  show "distinct (imports_set d)" by (rule distinct_imports)
  show "count_list (import_statements (generateDesignPy d)) sram_import =
      (if some_includes (memory d) ''sram'' \<or> memory d = [] then 2 else 1)"
    unfolding count_import_statements using sram_in_set[of d]
    by (simp add: sram_import_def)
next
  assume "s \<noteq> sram_import"
  then show "count_list (import_statements (generateDesignPy d)) s \<le> 1"
    unfolding count_import_statements using verilog_not_in_set[of d] by auto
qed

text \<open>
  C2 as amended, on a document with a CV32E40P core, a QSPI flash, two GPIO blocks and a
  UART: two GPIO blocks give one import of \<^verbatim>\<open>GPIOPeripheral\<close>, and since the memory category
  holds the flash only, the WishboneSRAM import appears once, inline.
\<close>

theorem C2_imports_cover_calls_witness:
  "set (called_names (generateDesignPy doc_full)) \<subseteq>
     set (imported_names (generateDesignPy doc_full)) \<union> set builtin_names \<union> set own_names \<and>
   import_statements (generateDesignPy doc_full) =
     [''from pathlib import Path'', ''from amaranth import Module'',
      ''from amaranth.lib import wiring'', ''from amaranth.lib.wiring import Out, flipped, connect'',
      ''from amaranth_soc import csr, wishbone'',
      ''from amaranth_soc.csr.wishbone import WishboneCSRBridge'',
      ''from chipflow_digital_ip.base import SoCID'',
      ''from chipflow_digital_ip.memory import QSPIFlash'',
      ''from chipflow_digital_ip.io import GPIOPeripheral, UARTPeripheral, SPIPeripheral'',
      ''from chipflow_digital_ip.processors import CV32E40P, OBIDebugModule'',
      ''from chipflow_lib.platforms import attach_data, SoftwareBuild, GPIOSignature, UARTSignature, SPISignature, QSPIFlashSignature, JTAGSignature'',
      ''from amaranth_soc.wishbone.sram import WishboneSRAM'',
      ''from amaranth.back import verilog''] \<and>
   count_list (import_statements (generateDesignPy doc_full))
     ''from amaranth_soc.wishbone.sram import WishboneSRAM'' = 1 \<and>
   count_list (import_statements (generateDesignPy doc_full))
     ''from chipflow_digital_ip.io import GPIOPeripheral, UARTPeripheral, SPIPeripheral'' \<le> 1"
proof -
  have m: "\<not> (some_includes (memory doc_full) ''sram'' \<or> memory doc_full = [])" by code_simp
  have 1: "import_statements (generateDesignPy doc_full) =
     [''from pathlib import Path'', ''from amaranth import Module'',
      ''from amaranth.lib import wiring'', ''from amaranth.lib.wiring import Out, flipped, connect'',
      ''from amaranth_soc import csr, wishbone'',
      ''from amaranth_soc.csr.wishbone import WishboneCSRBridge'',
      ''from chipflow_digital_ip.base import SoCID'',
      ''from chipflow_digital_ip.memory import QSPIFlash'',
      ''from chipflow_digital_ip.io import GPIOPeripheral, UARTPeripheral, SPIPeripheral'',
      ''from chipflow_digital_ip.processors import CV32E40P, OBIDebugModule'',
      ''from chipflow_lib.platforms import attach_data, SoftwareBuild, GPIOSignature, UARTSignature, SPISignature, QSPIFlashSignature, JTAGSignature'',
      ''from amaranth_soc.wishbone.sram import WishboneSRAM'',
      ''from amaranth.back import verilog'']"
    unfolding import_statements_artifact imports_doc_full by simp
  have 2: "''from chipflow_digital_ip.io import GPIOPeripheral, UARTPeripheral, SPIPeripheral'' \<noteq>
      sram_import"
    by (simp add: sram_import_def)
  have 3: "sram_import = ''from amaranth_soc.wishbone.sram import WishboneSRAM''"
    by (simp add: sram_import_def)
  note t = C2_imports_cover_calls[of doc_full
      "''from chipflow_digital_ip.io import GPIOPeripheral, UARTPeripheral, SPIPeripheral''"]
  have a: "set (called_names (generateDesignPy doc_full)) \<subseteq>
      set (imported_names (generateDesignPy doc_full)) \<union> set builtin_names \<union> set own_names"
    using t by (rule conjunct1)
  from t have "count_list (import_statements (generateDesignPy doc_full)) sram_import =
      (if some_includes (memory doc_full) ''sram'' \<or> memory doc_full = [] then 2 else 1)"
    by blast
  then have b: "count_list (import_statements (generateDesignPy doc_full)) sram_import = 1"
    using m by simp
  have c: "count_list (import_statements (generateDesignPy doc_full))
      ''from chipflow_digital_ip.io import GPIOPeripheral, UARTPeripheral, SPIPeripheral'' \<le> 1"
    using t 2 by blast
  show ?thesis using a 1 b c unfolding 3 by (intro conjI)
qed

text \<open>
  C3 (pairwise distinct base addresses) fails as stated. For a document that selects one
  block with id \<^verbatim>\<open>qspi_flash\<close> the memory map of the artifact assigns \<open>0xb0000000\<close>
  to both \<^verbatim>\<open>csr_base\<close> and \<^verbatim>\<open>csr_spiflash_base\<close>, so the addresses it assigns are
  not pairwise distinct.
\<close>

theorem C3_counterexample:
  "\<not> distinct (map snd (base_entries (generateDesignPy doc_qspi)))"
proof -
  have "some_includes (memory doc_qspi) ''qspi''" by code_simp
  then show ?thesis by (simp add: base_entries_artifact)
qed

text \<open>
  C3 as amended. For every document, the base addresses that the artifact assigns have
  pairwise distinct names, and the addresses other than that of \<^verbatim>\<open>csr_spiflash_base\<close>
  are pairwise distinct. When a block whose id contains \<open>qspi\<close> is selected,
  \<^verbatim>\<open>csr_spiflash_base\<close> is assigned \<open>0xb0000000\<close>, the address of \<^verbatim>\<open>csr_base\<close> (the
  flash registers sit at offset 0 of the CSR region); otherwise all assigned addresses
  are pairwise distinct.
\<close>

theorem C3_base_addresses:
  "distinct (map fst (base_entries (generateDesignPy d))) \<and>
   distinct (map snd (filter (\<lambda>e. fst e \<noteq> ''csr_spiflash_base'')
                        (base_entries (generateDesignPy d)))) \<and>
   (if some_includes (memory d) ''qspi''
    then map_of (base_entries (generateDesignPy d)) ''csr_spiflash_base'' = Some 0xb0000000 \<and>
         map_of (base_entries (generateDesignPy d)) ''csr_base'' = Some 0xb0000000
    else distinct (map snd (base_entries (generateDesignPy d))))"
  by (simp add: base_entries_artifact)

text \<open>
  C3 as amended, on a document that selects an SPI and an I2C block and no QSPI block:
  both conditional regions are assigned and all nine addresses are distinct.
\<close>

theorem C3_base_addresses_witness:
  "base_entries (generateDesignPy doc_spi_i2c) =
     [(''mem_spiflash_base'', 0x00000000), (''mem_sram_base'', 0x10000000),
      (''debug_base'', 0xa0000000), (''csr_base'', 0xb0000000),
      (''csr_gpio_base'', 0xb1000000), (''csr_uart_base'', 0xb2000000),
      (''csr_soc_id_base'', 0xb4000000), (''csr_spi_base'', 0xb5000000),
      (''csr_i2c_base'', 0xb6000000)] \<and>
   distinct (map snd (base_entries (generateDesignPy doc_spi_i2c)))"
proof -
  have 1: "\<not> some_includes (memory doc_spi_i2c) ''qspi''" by code_simp
  have 2: "some_includes (io doc_spi_i2c) ''spi''" by code_simp
  have 3: "some_includes (io doc_spi_i2c) ''i2c''" by code_simp
  show ?thesis using C3_base_addresses[of doc_spi_i2c] 1 2 3
    by (simp add: base_entries_artifact)
qed



text \<open>
  C5. For every document in which neither \<open>enabledBlocks\<close> nor \<open>digitalBlocks\<close> is
  present, every category (processors, memory, io, other) is empty and the generator
  returns the minimal artifact. The generator is a total function of the document: no
  branch of it raises.
\<close>

theorem C5_absent_lists_minimal_artifact:
  "enabledBlocks d = None \<Longrightarrow> directDigitalBlocks d = None \<Longrightarrow>
     processors d = [] \<and> memory d = [] \<and> io d = [] \<and> other d = [] \<and>
     generateDesignPy d = minimal_designPy"
proof -
  assume "enabledBlocks d = None" and "directDigitalBlocks d = None"
  then have "allBlocks d = []" by (simp add: allBlocks_def)
  then have e: "digitalBlocks d = []" by (rule no_blocks_digital)
  show ?thesis using no_digital_classes[OF e] no_digital_artifact[OF e] by simp
qed

text \<open>
  C5 on the document that has neither list.
\<close>

theorem C5_absent_lists_minimal_artifact_witness:
  "processors doc_absent = [] \<and> memory doc_absent = [] \<and> io doc_absent = [] \<and>
   other doc_absent = [] \<and> generateDesignPy doc_absent = minimal_designPy"
proof -
  have a: "enabledBlocks doc_absent = None" and b: "directDigitalBlocks doc_absent = None"
    by (simp_all add: doc_absent_def)
  show ?thesis using C5_absent_lists_minimal_artifact[OF a b] .
qed



text \<open>
  C7. For every document whose selected blocks with \<open>spi\<close> in the id are exactly two,
  \<open>b1\<close> and \<open>b2\<close> in this order, each with \<open>count = 1\<close>: the SPI instances that the
  artifact registers are \<^verbatim>\<open>spi_0\<close> and \<^verbatim>\<open>spi_1\<close>, in this order, so the index runs on
  from the first block to the second. When both blocks reach the SPI branch of the
  interface declarations, the SPI interfaces declared are \<^verbatim>\<open>spi_0\<close> and \<^verbatim>\<open>spi_1\<close> as
  well.
\<close>

theorem C7_spi_running_index:
  \<open>filter (\<lambda>b. includes_str (block_id b) ''spi'') (digitalBlocks d) = [b1, b2] \<Longrightarrow>
   count b1 = Some 1 \<Longrightarrow> count b2 = Some 1 \<Longrightarrow>
     filter is_spi_name (submodules (generateDesignPy d)) = [''spi_0'', ''spi_1''] \<and>
     (spi_branch b1 \<and> spi_branch b2 \<longrightarrow>
        filter (\<lambda>iface. includes_str iface ''spi_'') (interface_decls (generateDesignPy d)) =
          [''"spi_0": Out(SPISignature())'', ''"spi_1": Out(SPISignature())''])\<close>
proof -
  assume sel: "filter (\<lambda>b. includes_str (block_id b) ''spi'') (digitalBlocks d) = [b1, b2]"
    and c1: "count b1 = Some 1" and c2: "count b2 = Some 1"
  have "spiBlocks d = [b1, b2]" using sel by (simp add: spiBlocks_digital)
  then have inst: "filter is_spi_name (submodules (generateDesignPy d)) = [''spi_0'', ''spi_1'']"
    using spi_total_two[OF c1 c2] by (simp add: spi_submodules upt_two toString_01)
  have ifaces: \<open>filter (\<lambda>iface. includes_str iface ''spi_'') (interface_decls (generateDesignPy d)) =
      [''"spi_0": Out(SPISignature())'', ''"spi_1": Out(SPISignature())'']\<close>
    if br: "spi_branch b1 \<and> spi_branch b2"
  proof -
    have "filter spi_branch (digitalBlocks d) =
        filter spi_branch (filter (\<lambda>b. includes_str (block_id b) ''spi'') (digitalBlocks d))"
      by (auto simp: spi_branch_def intro: filter_cong)
    then have "filter spi_branch (io d) = [b1, b2]"
      using sel br by (simp add: spi_branch_blocks)
    then show ?thesis using spi_total_two[OF c1 c2]
      by (simp add: interface_decls_artifact interfaces_spi upt_two iface_spi_01)
  qed
  show ?thesis using inst ifaces by blast
qed

text \<open>
  C7 on the document with the two blocks \<^verbatim>\<open>spi_a\<close> and \<^verbatim>\<open>spi_b\<close>, each with
  \<open>count = 1\<close>.
\<close>

theorem C7_spi_running_index_witness:
  \<open>filter is_spi_name (submodules (generateDesignPy doc_two_spi)) = [''spi_0'', ''spi_1''] \<and>
   filter (\<lambda>iface. includes_str iface ''spi_'') (interface_decls (generateDesignPy doc_two_spi)) =
     [''"spi_0": Out(SPISignature())'', ''"spi_1": Out(SPISignature())'']\<close>
proof -
  let ?b1 = "mk_block ''spi_a'' (Some 1) None" and ?b2 = "mk_block ''spi_b'' (Some 1) None"
  have sel: "filter (\<lambda>b. includes_str (block_id b) ''spi'') (digitalBlocks doc_two_spi) = [?b1, ?b2]"
    by (simp add: doc_two_spi_def digitalBlocks_doc_of mk_block_def)
  have c1: "count ?b1 = Some 1" and c2: "count ?b2 = Some 1" by (simp_all add: mk_block_def)
  have br: "spi_branch ?b1 \<and> spi_branch ?b2" by (simp add: spi_branch_def mk_block_def)
  show ?thesis
    using C7_spi_running_index[OF sel c1 c2] br by blast
qed






end
